theory Spec2Isabelle
  imports Complex_Main "HOL-Library.Word"
begin

unbundle bit_operations_syntax

section \<open>JavaScript numbers\<close>

text \<open>
  A JavaScript number is an IEEE 754 double. The model keeps \<open>NaN\<close>, the two infinities
  and the finite values; a finite value is the real number it denotes (the sign of zero
  is not represented). Arithmetic is the exact operation followed by the rounding \<open>fl\<close>
  to the nearest double below, so overflow to an infinity, gradual underflow and the
  loss of digits are part of the model. The operations follow ECMAScript: every
  arithmetic operation and \<open>Math.min\<close>/\<open>Math.max\<close> return \<open>NaN\<close> as soon as one operand
  is \<open>NaN\<close>, and every comparison with \<open>NaN\<close> is false.
\<close>

datatype jsnum = NaN | NInf | Num real | PInf

text \<open>
  Rounding to nearest, ties to even. The unit in the last place of \<open>x\<close> is
  \<open>2 ^ (e - 52)\<close> for the binary exponent \<open>e\<close> of \<open>x\<close>, which is at least \<open>- 1022\<close>
  (below it the doubles are subnormal and evenly spaced by \<open>2 ^ - 1074\<close>); \<open>x\<close> is
  rounded to the nearest multiple of that unit, and a result of magnitude \<open>2 ^ 1024\<close>
  or more is the infinity of the sign of \<open>x\<close>.
\<close>

definition round_half_even :: "real \<Rightarrow> int" where
  "round_half_even q =
     (let f = \<lfloor>q\<rfloor>; d = q - of_int f
      in if d < 1 / 2 then f else if 1 / 2 < d then f + 1 else if even f then f else f + 1)"

definition fl_exponent :: "real \<Rightarrow> int" where
  "fl_exponent x = max \<lfloor>log 2 \<bar>x\<bar>\<rfloor> (- 1022)"

definition fl_ulp :: "real \<Rightarrow> real" where
  "fl_ulp x = 2 powr of_int (fl_exponent x - 52)"

definition fl :: "real \<Rightarrow> jsnum" where
  "fl x =
     (if x = 0 then Num 0
      else (let r = of_int (round_half_even (x / fl_ulp x)) * fl_ulp x
            in if 2 ^ 1024 \<le> \<bar>r\<bar> then (if 0 < x then PInf else NInf) else Num r))"

text \<open>\<open>Math.PI\<close> is the double nearest to \<open>pi\<close>, \<open>3.141592653589793\<close>.\<close>

definition Math_PI :: real where
  "Math_PI = 884279719003555 / 2 ^ 48"

fun js_neg :: "jsnum \<Rightarrow> jsnum" where
  "js_neg NaN = NaN"
| "js_neg NInf = PInf"
| "js_neg PInf = NInf"
| "js_neg (Num x) = Num (- x)"

fun js_add :: "jsnum \<Rightarrow> jsnum \<Rightarrow> jsnum" where
  "js_add (Num x) (Num y) = fl (x + y)"
| "js_add NaN _ = NaN"
| "js_add _ NaN = NaN"
| "js_add PInf NInf = NaN"
| "js_add NInf PInf = NaN"
| "js_add PInf _ = PInf"
| "js_add _ PInf = PInf"
| "js_add NInf _ = NInf"
| "js_add _ NInf = NInf"

definition js_sub :: "jsnum \<Rightarrow> jsnum \<Rightarrow> jsnum" where
  "js_sub a b = js_add a (js_neg b)"

fun js_mul :: "jsnum \<Rightarrow> jsnum \<Rightarrow> jsnum" where
  "js_mul (Num x) (Num y) = fl (x * y)"
| "js_mul NaN _ = NaN"
| "js_mul _ NaN = NaN"
| "js_mul (Num x) PInf = (if x = 0 then NaN else if 0 < x then PInf else NInf)"
| "js_mul (Num x) NInf = (if x = 0 then NaN else if 0 < x then NInf else PInf)"
| "js_mul PInf (Num y) = (if y = 0 then NaN else if 0 < y then PInf else NInf)"
| "js_mul NInf (Num y) = (if y = 0 then NaN else if 0 < y then NInf else PInf)"
| "js_mul PInf PInf = PInf"
| "js_mul NInf NInf = PInf"
| "js_mul PInf NInf = NInf"
| "js_mul NInf PInf = NInf"

text \<open>A finite quotient by zero is infinite (zero is taken as \<open>+0\<close>); \<open>0 / 0\<close> is \<open>NaN\<close>.\<close>

fun js_div :: "jsnum \<Rightarrow> jsnum \<Rightarrow> jsnum" where
  "js_div (Num x) (Num y) =
     (if y = 0 then (if x = 0 then NaN else if 0 < x then PInf else NInf)
      else fl (x / y))"
| "js_div NaN _ = NaN"
| "js_div _ NaN = NaN"
| "js_div (Num x) PInf = Num 0"
| "js_div (Num x) NInf = Num 0"
| "js_div PInf (Num y) = (if 0 \<le> y then PInf else NInf)"
| "js_div NInf (Num y) = (if 0 \<le> y then NInf else PInf)"
| "js_div PInf PInf = NaN"
| "js_div PInf NInf = NaN"
| "js_div NInf PInf = NaN"
| "js_div NInf NInf = NaN"

text \<open>\<open>Math.min\<close> and \<open>Math.max\<close>.\<close>

fun js_min :: "jsnum \<Rightarrow> jsnum \<Rightarrow> jsnum" where
  "js_min (Num x) (Num y) = Num (min x y)"
| "js_min NaN _ = NaN"
| "js_min _ NaN = NaN"
| "js_min NInf _ = NInf"
| "js_min _ NInf = NInf"
| "js_min PInf y = y"
| "js_min x PInf = x"

fun js_max :: "jsnum \<Rightarrow> jsnum \<Rightarrow> jsnum" where
  "js_max (Num x) (Num y) = Num (max x y)"
| "js_max NaN _ = NaN"
| "js_max _ NaN = NaN"
| "js_max PInf _ = PInf"
| "js_max _ PInf = PInf"
| "js_max NInf y = y"
| "js_max x NInf = x"

text \<open>
  \<open>Math.tan\<close> and \<open>Math.atan\<close>, taken as correctly rounded (ECMAScript leaves their last
  digits to the implementation). At the odd multiples of \<open>pi / 2\<close>, where the real
  tangent has a pole, HOL's \<open>tan\<close> is 0; no double is such a multiple.
\<close>

fun js_tan :: "jsnum \<Rightarrow> jsnum" where
  "js_tan (Num x) = fl (tan x)"
| "js_tan _ = NaN"

fun js_atan :: "jsnum \<Rightarrow> jsnum" where
  "js_atan (Num x) = fl (arctan x)"
| "js_atan PInf = fl (pi / 2)"
| "js_atan NInf = fl (- (pi / 2))"
| "js_atan NaN = NaN"

text \<open>
  The remainder operator \<open>%\<close>: the quotient is truncated towards zero. The remainder
  of two doubles is a double, so no rounding takes place.
\<close>

definition trunc_real :: "real \<Rightarrow> real" where
  "trunc_real q = (if 0 \<le> q then of_int \<lfloor>q\<rfloor> else of_int \<lceil>q\<rceil>)"

fun js_rem :: "jsnum \<Rightarrow> jsnum \<Rightarrow> jsnum" where
  "js_rem (Num x) (Num y) = (if y = 0 then NaN else Num (x - y * trunc_real (x / y)))"
| "js_rem (Num x) PInf = Num x"
| "js_rem (Num x) NInf = Num x"
| "js_rem _ _ = NaN"

text \<open>Comparisons, strict equality on numbers, truthiness and \<open>isFinite\<close>.\<close>

fun js_lt :: "jsnum \<Rightarrow> jsnum \<Rightarrow> bool" where
  "js_lt (Num x) (Num y) = (x < y)"
| "js_lt NaN _ = False"
| "js_lt _ NaN = False"
| "js_lt _ NInf = False"
| "js_lt NInf _ = True"
| "js_lt PInf _ = False"
| "js_lt _ PInf = True"

fun js_seq :: "jsnum \<Rightarrow> jsnum \<Rightarrow> bool" where
  "js_seq NaN _ = False"
| "js_seq _ NaN = False"
| "js_seq a b = (a = b)"

definition js_le :: "jsnum \<Rightarrow> jsnum \<Rightarrow> bool" where
  "js_le a b = (js_lt a b \<or> js_seq a b)"


definition js_ge :: "jsnum \<Rightarrow> jsnum \<Rightarrow> bool" where
  "js_ge a b = js_le b a"

fun js_truthy :: "jsnum \<Rightarrow> bool" where
  "js_truthy NaN = False"
| "js_truthy (Num x) = (x \<noteq> 0)"
| "js_truthy _ = True"


section \<open>Utils.js: field-of-view conversions and clamps\<close>

text \<open>
  \<open>vFovDegToHFovDeg(vFovDeg, aspect)\<close> is
  \<open>2 * (180 / Math.PI) * Math.atan(Math.tan((Math.PI / 180) * (vFovDeg / 2)) * aspect)\<close>
  and \<open>hFovDegToVFovDeg\<close> divides by the aspect instead. Every operation is a double
  operation: each of the products, quotients and calls below rounds its result.
\<close>

definition vFovDegToHFovDeg :: "jsnum \<Rightarrow> jsnum \<Rightarrow> jsnum" where
  "vFovDegToHFovDeg vFovDeg aspect =
     js_mul (js_mul (Num 2) (js_div (Num 180) (Num Math_PI)))
       (js_atan (js_mul (js_tan (js_mul (js_div (Num Math_PI) (Num 180)) (js_div vFovDeg (Num 2)))) aspect))"

definition hFovDegToVFovDeg :: "jsnum \<Rightarrow> jsnum \<Rightarrow> jsnum" where
  "hFovDegToVFovDeg hFovDeg aspect =
     js_mul (js_mul (Num 2) (js_div (Num 180) (Num Math_PI)))
       (js_atan (js_div (js_tan (js_mul (js_div (Num Math_PI) (Num 180)) (js_div hFovDeg (Num 2)))) aspect))"



text \<open>
  \<open>clampFov(vFov, { min, max, projVFovDeg, projHFovDeg, aspect })\<close>; the fields of the
  argument object are passed in that order (\<open>min\<close> and \<open>max\<close> renamed, as they are HOL
  constants).
\<close>

definition clampFov :: "jsnum \<Rightarrow> jsnum \<Rightarrow> jsnum \<Rightarrow> jsnum \<Rightarrow> jsnum \<Rightarrow> jsnum \<Rightarrow> jsnum" where
  "clampFov vFov minFov maxFov projVFovDeg projHFovDeg aspect =
     (let vMax = js_min maxFov (js_sub projVFovDeg (Num 1));
          clamped = vFov;
          clamped =
            (if js_truthy projHFovDeg \<and> js_seq projHFovDeg (Num 180)
             then (let vFromH = hFovDegToVFovDeg (js_max (Num 1) (js_sub projHFovDeg (Num 1))) aspect
                   in js_min clamped vFromH)
             else clamped)
      in js_max minFov (js_min vMax clamped))"

text \<open>
  \<open>clampYawPitch(yaw, pitch, { projHFovDeg, projVFovDeg, currentVFovDeg, currentHFovDeg })\<close>
  returns \<open>{ yaw, pitch }\<close>, here the pair \<open>(yaw, pitch)\<close>.
\<close>

definition clampYawPitch ::
  "jsnum \<Rightarrow> jsnum \<Rightarrow> jsnum \<Rightarrow> jsnum \<Rightarrow> jsnum \<Rightarrow> jsnum \<Rightarrow> jsnum \<times> jsnum" where
  "clampYawPitch yaw pitch projHFovDeg projVFovDeg currentVFovDeg currentHFovDeg =
     (let pitchLimit = js_mul (js_div (js_sub projVFovDeg currentVFovDeg) (Num 2))
                              (js_div (Num Math_PI) (Num 180));
          newPitch = js_max (js_neg pitchLimit) (js_min pitchLimit pitch);
          newYaw =
            (if js_seq projHFovDeg (Num 180)
             then (let yawLimit = js_mul (js_div (js_sub projHFovDeg currentHFovDeg) (Num 2))
                                         (js_div (Num Math_PI) (Num 180))
                   in js_max (js_neg yawLimit) (js_min yawLimit yaw))
             else js_rem yaw (js_mul (Num 2) (Num Math_PI)))
      in (newYaw, newPitch))"

definition zoomFromWheel :: "jsnum \<Rightarrow> jsnum \<Rightarrow> jsnum \<Rightarrow> jsnum" where
  "zoomFromWheel currentVFovDeg wheelDeltaY sensitivity =
     js_add currentVFovDeg (js_mul wheelDeltaY sensitivity)"

definition dragToYawPitch :: "jsnum \<Rightarrow> jsnum \<Rightarrow> jsnum \<Rightarrow> jsnum \<Rightarrow> jsnum \<Rightarrow> jsnum \<times> jsnum" where
  "dragToYawPitch yaw pitch dx dy sensitivity =
     (js_add yaw (js_mul dx sensitivity), js_add pitch (js_mul dy sensitivity))"

definition isVrProjection :: "string \<Rightarrow> bool" where
  "isVrProjection projection = (projection = ''vr180'' \<or> projection = ''vr360'')"

text \<open>
  \<open>currentAspect(canvas)\<close>: the client width and height of a canvas are non-negative
  integers; \<open>cw && ch ? cw / ch : 16 / 9\<close>.
\<close>

definition currentAspect :: "nat \<Rightarrow> nat \<Rightarrow> jsnum" where
  "currentAspect cw ch =
     (if cw \<noteq> 0 \<and> ch \<noteq> 0 then js_div (Num (real cw)) (Num (real ch))
      else js_div (Num 16) (Num 9))"

text \<open>The constants of \<open>SETTINGS\<close> in Render.js that the camera code reads.\<close>

definition VR_VFOV_DEG :: jsnum where "VR_VFOV_DEG = Num 100"
definition VR_VFOV_MIN_DEG :: jsnum where "VR_VFOV_MIN_DEG = Num 20"
definition VR_VFOV_MAX_DEG :: jsnum where "VR_VFOV_MAX_DEG = Num 179"
definition DRAG_SENSITIVITY :: jsnum where "DRAG_SENSITIVITY = fl (5 / 1000)"
definition ZOOM_SENSITIVITY :: jsnum where "ZOOM_SENSITIVITY = fl (2 / 100)"

text \<open>
  The projection's angular spans, as \<open>_createVrGeometry\<close> derives them:
  \<open>hFov = 180, 360 or 0\<close> and \<open>vFov = 180 or 0\<close>.
\<close>

definition projHFov :: "string \<Rightarrow> jsnum" where
  "projHFov projection =
     (if projection = ''vr180'' then Num 180 else if projection = ''vr360'' then Num 360 else Num 0)"

definition projVFov :: "string \<Rightarrow> jsnum" where
  "projVFov projection =
     (if projection = ''vr180'' \<or> projection = ''vr360'' then Num 180 else Num 0)"

text \<open>
  Two doubles that the clamps and the conversions meet: \<open>(Math.PI / 180) * (179 / 2)\<close>
  and \<open>(Math.PI / 180) * (20 / 2)\<close> as the code computes them.
\<close>

definition X179 :: real where "X179 = 3517468215591919 / 2 ^ 51"


section \<open>The state snapshot read from the store\<close>

text \<open>
  The fields of the store (Store.js) that the renderer and the detector read. The video
  element contributes its decoded size and, when the browser exposes them, its video
  tracks; \<open>videoTracks\<close> is \<open>None\<close> where the property is undefined.
\<close>

text \<open>
  A file name is an arbitrary JavaScript string (\<open>file.name\<close>), a sequence of UTF-16 code
  units, here natural numbers; \<open>code_units\<close> gives the code units of a literal whose
  characters are below U+0100. \<open>String.prototype.toUpperCase\<close> on such a string is the
  host's Unicode mapping, which can lengthen the string (U+00DF becomes \<open>SS\<close>) and maps
  characters outside ASCII to ASCII letters (U+017F becomes \<open>S\<close>); the code that calls
  it takes it as a parameter.
\<close>

type_synonym jsstring = "nat list"

definition code_units :: "string \<Rightarrow> jsstring" where
  "code_units s = map of_char s"

record track =
  stereoMode :: "string option"

record video_element =
  videoTracks :: "track list option"
  videoWidth :: nat
  videoHeight :: nat

record store_state =
  video :: video_element
  name :: jsstring
  view :: string
  projection :: string
  layout :: string
  resolution :: string
  eye :: string
  antiR :: jsnum
  antiG :: jsnum
  antiB :: jsnum
  balance :: jsnum
  convergence :: jsnum
  depthCompression :: jsnum

section \<open>Render.js: materials\<close>

text \<open>
  A uniform holds a texture reference, a number, a boolean or a two-component vector. The
  uniform set of a \<open>ShaderMaterial\<close> is an association list in declaration order; a
  \<open>MeshBasicMaterial\<close> has no \<open>uniforms\<close> property (\<open>None\<close>). Object identity is made
  explicit: every constructed material receives a fresh \<open>mat_id\<close>.
\<close>

datatype uvalue = UTexture | UNum jsnum | UBool bool | UVec2 jsnum jsnum

datatype mat_class = MeshBasicMaterial | ShaderMaterial

datatype mat_side = FrontSide | BackSide | DoubleSide

record material =
  mat_id :: nat
  mat_class :: mat_class
  uniforms :: "(string \<times> uvalue) list option"
  vertexShader :: string
  fragmentShader :: string
  userData_type :: "string option"
  side :: mat_side
  toneMapped :: bool

datatype camera_kind = OrthographicCamera | PerspectiveCamera

datatype geometry = PlaneGeometry | SphereGeometry jsnum jsnum

text \<open>
  The renderer. \<open>mesh\<close> is \<open>None\<close> before \<open>_initMesh\<close> has run; its material may be
  missing (the code reads it with \<open>?.\<close>). \<open>camera\<close> says which of the two cached cameras
  is current. \<open>next_id\<close> is the allocation counter behind \<open>mat_id\<close>, \<open>disposed\<close>
  collects the ids passed to \<open>dispose()\<close>, \<open>renders\<close> counts calls of
  \<open>webgl.render\<close>, and \<open>frame_active\<close> says whether an animation frame handle is held.
  \<open>clientWidth\<close> and \<open>clientHeight\<close> are the canvas's.
\<close>

record render =
  mesh :: "material option option"
  mesh_geometry :: geometry
  next_id :: nat
  disposed :: "nat list"
  camera :: camera_kind
  perspFov :: jsnum
  perspRotation :: "jsnum \<times> jsnum"
  orthoRotation :: "jsnum \<times> jsnum"
  projHFovDeg :: "jsnum option"
  projVFovDeg :: "jsnum option"
  clientWidth :: nat
  clientHeight :: nat
  isDragging :: bool
  dragLastX :: jsnum
  dragLastY :: jsnum
  yaw :: jsnum
  pitch :: jsnum
  frame_active :: bool
  renders :: nat

definition edgeFeatherForProjection :: "string \<Rightarrow> jsnum \<times> jsnum" where
  "edgeFeatherForProjection p =
     (if p = ''vr180'' then (Num (5 / 100), Num (5 / 100)) else (Num 0, Num 0))"

definition hFovRad :: "string \<Rightarrow> jsnum" where
  "hFovRad p = (if p = ''vr180'' then Num Math_PI else js_mul (Num Math_PI) (Num 2))"

definition createEquirectMaterial :: "nat \<Rightarrow> store_state \<Rightarrow> material" where
  "createEquirectMaterial i s =
     \<lparr> mat_id = i, mat_class = ShaderMaterial,
       uniforms = Some
         [(''map'', UTexture),
          (''u_h_fov_rad'', UNum (hFovRad (projection s))),
          (''u_v_fov_rad'', UNum (Num Math_PI)),
          (''uLayout'', UNum (if layout s = ''sbs'' then Num 0 else Num 1)),
          (''uIsWatchView'', UBool (view s = ''watch'')),
          (''uHalfRes'', UBool (resolution s = ''half'')),
          (''uLeftEye'', UBool (eye s \<noteq> ''right'')),
          (''uEdgeFeather'', UVec2 (Num 0) (Num 0))],
       vertexShader = ''EQUIRECT_VERTEX_SHADER'',
       fragmentShader = ''EQUIRECT_FRAGMENT_SHADER'',
       userData_type = None, side = FrontSide, toneMapped = True \<rparr>"

definition createAnaglyphVrMaterial :: "nat \<Rightarrow> store_state \<Rightarrow> material" where
  "createAnaglyphVrMaterial i s =
     \<lparr> mat_id = i, mat_class = ShaderMaterial,
       uniforms = Some
         [(''map'', UTexture),
          (''u_h_fov_rad'', UNum (hFovRad (projection s))),
          (''u_v_fov_rad'', UNum (Num Math_PI)),
          (''uLayout'', UNum (if layout s = ''sbs'' then Num 0 else Num 1)),
          (''uSwapEyes'', UNum (Num 0)),
          (''uHalfRes'', UBool (resolution s = ''half'')),
          (''uEdgeFeather'', UVec2 (Num 0) (Num 0))],
       vertexShader = ''EQUIRECT_VERTEX_SHADER'',
       fragmentShader = ''ANAGLYPH_FRAGMENT_SHADER'',
       userData_type = None, side = FrontSide, toneMapped = False \<rparr>"

definition createAnaglyphFlatMaterial :: "nat \<Rightarrow> store_state \<Rightarrow> material" where
  "createAnaglyphFlatMaterial i s =
     \<lparr> mat_id = i, mat_class = ShaderMaterial,
       uniforms = Some
         [(''map'', UTexture),
          (''uLayout'', UNum (if layout s = ''sbs'' then Num 0 else Num 1)),
          (''uSwapEyes'', UNum (Num 0))],
       vertexShader = ''FLAT_VERTEX_SHADER'',
       fragmentShader = ''ANAGLYPH_FLAT_FRAGMENT_SHADER'',
       userData_type = None, side = FrontSide, toneMapped = False \<rparr>"

definition createWatchFlatMaterial :: "nat \<Rightarrow> store_state \<Rightarrow> material" where
  "createWatchFlatMaterial i s =
     \<lparr> mat_id = i, mat_class = ShaderMaterial,
       uniforms = Some
         [(''map'', UTexture),
          (''uLayout'', UNum (if layout s = ''sbs'' then Num 0 else Num 1)),
          (''uLeftEye'', UBool (eye s \<noteq> ''right''))],
       vertexShader = ''FLAT_VERTEX_SHADER'',
       fragmentShader = ''WATCH_FLAT_FRAGMENT_SHADER'',
       userData_type = None, side = FrontSide, toneMapped = True \<rparr>"

definition createMeshBasicMaterial :: "nat \<Rightarrow> material" where
  "createMeshBasicMaterial i =
     \<lparr> mat_id = i, mat_class = MeshBasicMaterial, uniforms = None,
       vertexShader = [], fragmentShader = [],
       userData_type = None, side = FrontSide, toneMapped = True \<rparr>"

text \<open>
  \<open>if (u.k) { u.k.value = v; }\<close>: an entry of the uniform set is a non-null object, so
  the test asks whether the key is present; an absent key is left absent.
\<close>

fun set_if_present :: "string \<Rightarrow> uvalue \<Rightarrow> (string \<times> uvalue) list \<Rightarrow> (string \<times> uvalue) list" where
  "set_if_present k v [] = []"
| "set_if_present k v ((k', v') # u) =
     (if k' = k then (k', v) # set_if_present k v u else (k', v') # set_if_present k v u)"

text \<open>\<open>_updateMaterialUniforms(mat, s)\<close>, the updates in the order of the source.\<close>

definition updateMaterialUniforms :: "material \<Rightarrow> store_state \<Rightarrow> material" where
  "updateMaterialUniforms mat s =
     (case uniforms mat of
        None \<Rightarrow> mat
      | Some u \<Rightarrow>
          (let u = set_if_present ''map'' UTexture u;
               u = set_if_present ''u_h_fov_rad'' (UNum (hFovRad (projection s))) u;
               u = set_if_present ''u_v_fov_rad'' (UNum (Num Math_PI)) u;
               u = set_if_present ''uLayout'' (UNum (if layout s = ''sbs'' then Num 0 else Num 1)) u;
               u = set_if_present ''uHalfRes'' (UBool (resolution s = ''half'')) u;
               u = set_if_present ''uIsWatchView'' (UBool (view s = ''watch'')) u;
               u = set_if_present ''uLeftEye'' (UBool (eye s \<noteq> ''right'')) u;
               u = set_if_present ''uEdgeFeather''
                     (case edgeFeatherForProjection (projection s) of (fu, fv) \<Rightarrow> UVec2 fu fv) u
           in mat\<lparr>uniforms := Some u\<rparr>))"

text \<open>The type tag that \<open>updateMaterial\<close> resolves from the projection and the view.\<close>

definition intendedType :: "store_state \<Rightarrow> string" where
  "intendedType s =
     (if isVrProjection (projection s)
      then (if view s = ''anaglyph'' then ''vr-anaglyph'' else ''vr-equirect'')
      else (if view s = ''anaglyph'' then ''flat-anaglyph''
            else if view s = ''watch'' then ''flat-watch'' else ''flat-basic''))"

definition currentType :: "render \<Rightarrow> string option" where
  "currentType r =
     (case mesh r of
        None \<Rightarrow> None
      | Some None \<Rightarrow> None
      | Some (Some m) \<Rightarrow> userData_type m)"

definition createMaterialFor :: "nat \<Rightarrow> store_state \<Rightarrow> material" where
  "createMaterialFor i s =
     (if isVrProjection (projection s)
      then (if view s = ''anaglyph'' then createAnaglyphVrMaterial i s
            else createEquirectMaterial i s)
      else if view s = ''anaglyph'' then createAnaglyphFlatMaterial i s
      else if view s = ''watch'' then createWatchFlatMaterial i s
      else createMeshBasicMaterial i)"

text \<open>
  \<open>updateMaterial(s)\<close>. Without a mesh it returns at once. When the bound material's
  tag differs from the resolved one, the old material (if any) is disposed and a new one
  is constructed and tagged; in both cases the uniforms are then updated and the face
  side is set.
\<close>

definition updateMaterial :: "render \<Rightarrow> store_state \<Rightarrow> render" where
  "updateMaterial r s =
     (case mesh r of
        None \<Rightarrow> r
      | Some old \<Rightarrow>
          (let isVr = isVrProjection (projection s);
               r1 = (if currentType r \<noteq> Some (intendedType s)
                     then r\<lparr> disposed := (case old of None \<Rightarrow> disposed r
                                           | Some m \<Rightarrow> disposed r @ [mat_id m]),
                             mesh := Some (Some ((createMaterialFor (next_id r) s)
                                                   \<lparr>userData_type := Some (intendedType s)\<rparr>)),
                             next_id := Suc (next_id r) \<rparr>
                     else r)
           in (case mesh r1 of
                 Some (Some m) \<Rightarrow>
                   r1\<lparr> mesh := Some (Some ((updateMaterialUniforms m s)
                                            \<lparr>side := (if isVr then BackSide else FrontSide)\<rparr>)) \<rparr>
               | _ \<Rightarrow> r1)))"

text \<open>A sequence of calls, as the store's subscriptions issue them one after another.\<close>

fun updateMaterials :: "render \<Rightarrow> store_state list \<Rightarrow> render" where
  "updateMaterials r [] = r"
| "updateMaterials r (s # ss) = updateMaterials (updateMaterial r s) ss"

section \<open>Render.js: camera interaction\<close>

record pointer_event =
  clientX :: jsnum
  clientY :: jsnum

record wheel_event =
  deltaY :: jsnum

text \<open>\<open>null\<close> converts to the number 0 in arithmetic, is falsy and is not \<open>=== 180\<close>.\<close>

definition toNumber :: "jsnum option \<Rightarrow> jsnum" where
  "toNumber v = (case v of None \<Rightarrow> Num 0 | Some x \<Rightarrow> x)"

definition renderFrame :: "render \<Rightarrow> render" where
  "renderFrame r = r\<lparr>renders := Suc (renders r)\<rparr>"

definition requestRender :: "render \<Rightarrow> render" where
  "requestRender r = (if \<not> frame_active r then renderFrame r else r)"

text \<open>
  \<open>_applyPanAndZoomClamps()\<close>: clamp the perspective camera's field of view, then the
  yaw and pitch against the clamped field of view, and write the rotation
  (\<open>rotation.set(pitch, yaw, 0, "YXZ")\<close>). The projection matrix is not modelled.
\<close>

definition applyPanAndZoomClamps :: "render \<Rightarrow> render" where
  "applyPanAndZoomClamps r =
     (if camera r \<noteq> PerspectiveCamera then r
      else
        (let aspect = currentAspect (clientWidth r) (clientHeight r);
             pH = toNumber (projHFovDeg r);
             pV = toNumber (projVFovDeg r);
             fov = clampFov (perspFov r) VR_VFOV_MIN_DEG VR_VFOV_MAX_DEG pV pH aspect;
             currentVFovDeg = fov;
             currentHFovDeg = vFovDegToHFovDeg currentVFovDeg aspect;
             clamped = clampYawPitch (yaw r) (pitch r) pH pV currentVFovDeg currentHFovDeg
         in r\<lparr> perspFov := fov, yaw := fst clamped, pitch := snd clamped,
                perspRotation := (snd clamped, fst clamped) \<rparr>))"

definition applyDragDelta :: "render \<Rightarrow> jsnum \<Rightarrow> jsnum \<Rightarrow> render" where
  "applyDragDelta r dx dy =
     (let res = dragToYawPitch (yaw r) (pitch r) dx dy DRAG_SENSITIVITY
      in applyPanAndZoomClamps (r\<lparr>yaw := fst res, pitch := snd res\<rparr>))"

definition handleDragStart :: "render \<Rightarrow> jsnum \<Rightarrow> jsnum \<Rightarrow> render" where
  "handleDragStart r x y = r\<lparr>isDragging := True, dragLastX := x, dragLastY := y\<rparr>"

definition handleDragMove :: "render \<Rightarrow> jsnum \<Rightarrow> jsnum \<Rightarrow> render" where
  "handleDragMove r x y =
     (let dx = js_sub x (dragLastX r);
          dy = js_sub y (dragLastY r);
          r1 = applyDragDelta r dx dy
      in requestRender (r1\<lparr>dragLastX := x, dragLastY := y\<rparr>))"

text \<open>
  The event handlers return the renderer and whether \<open>preventDefault()\<close> was called on
  the event.
\<close>

definition onPointerDown :: "render \<Rightarrow> pointer_event \<Rightarrow> render \<times> bool" where
  "onPointerDown r e =
     (if camera r \<noteq> PerspectiveCamera then (r, False)
      else (handleDragStart r (clientX e) (clientY e), True))"

definition onPointerMove :: "render \<Rightarrow> pointer_event \<Rightarrow> render \<times> bool" where
  "onPointerMove r e =
     (if \<not> isDragging r \<or> camera r \<noteq> PerspectiveCamera then (r, False)
      else (handleDragMove r (clientX e) (clientY e), True))"

definition onPointerUp :: "render \<Rightarrow> render" where
  "onPointerUp r = r\<lparr>isDragging := False\<rparr>"

definition onWheel :: "render \<Rightarrow> wheel_event \<Rightarrow> render \<times> bool" where
  "onWheel r e =
     (if camera r \<noteq> PerspectiveCamera then (r, False)
      else
        (let delta = deltaY e;
             r1 = r\<lparr>perspFov := zoomFromWheel (perspFov r) delta ZOOM_SENSITIVITY\<rparr>
         in (requestRender (applyPanAndZoomClamps r1), True)))"

text \<open>
  \<open>_applyProjectionAndViewGeometry(projection)\<close> selects the camera and the geometry.
  \<open>_createVrGeometry\<close> records the projection's spans and builds the sphere segment with
  \<open>phiStart = -hFovRad / 2 - pi / 2\<close> and \<open>phiLength = hFovRad\<close>.
\<close>

definition degToRad :: "jsnum \<Rightarrow> jsnum" where
  "degToRad d = js_mul d (js_div (Num Math_PI) (Num 180))"

definition applyProjectionAndViewGeometry :: "render \<Rightarrow> string \<Rightarrow> render" where
  "applyProjectionAndViewGeometry r p =
     (if isVrProjection p
      then
        (let hRad = degToRad (projHFov p);
             thetaStart = js_sub (js_div (js_neg hRad) (Num 2)) (js_div (Num Math_PI) (Num 2))
         in applyPanAndZoomClamps
              (r\<lparr> camera := PerspectiveCamera,
                  mesh_geometry := SphereGeometry thetaStart hRad,
                  projHFovDeg := Some (projHFov p),
                  projVFovDeg := Some (projVFov p),
                  yaw := Num 0, pitch := Num 0,
                  perspFov := VR_VFOV_DEG \<rparr>))
      else r\<lparr> camera := OrthographicCamera, mesh_geometry := PlaneGeometry,
               orthoRotation := (Num 0, Num 0) \<rparr>)"

section \<open>Strings\<close>











section \<open>Detector.js: layout and resolution\<close>

datatype METHOD = METADATA | FILENAME | RESOLUTION | DEFAULT






definition aspectRatio :: "store_state \<Rightarrow> jsnum" where
  "aspectRatio s = js_div (Num (real (videoWidth (video s)))) (Num (real (videoHeight (video s))))"


definition detectResolution :: "store_state \<Rightarrow> string \<Rightarrow> string \<times> METHOD" where
  "detectResolution s lay =
     (if lay = ''sbs''
      then (if js_ge (aspectRatio s) (fl 3.3) then ''full'' else ''half'', RESOLUTION)
      else (if js_lt (aspectRatio s) (Num 1) then ''full'' else ''half'', RESOLUTION))"

section \<open>Detector.js: the EBML variable-length integer\<close>

text \<open>
  \<open>readVint(pos, forId)\<close> reads from a \<open>DataView\<close> over the bytes \<open>dv\<close>. The bitwise
  operators of JavaScript work on 32-bit integers and return a signed 32-bit integer, so
  \<open>mask\<close> (here \<open>msk\<close>) and \<open>value\<close> are 32-bit words and the result is read with \<open>sint\<close>. The
  \<open>while\<close> loop that looks for the marker bit is \<open>vint_scan\<close>; the \<open>for\<close> loop over
  the continuation bytes is the fold in \<open>readVint\<close>.
\<close>

function vint_scan :: "32 word \<Rightarrow> 32 word \<Rightarrow> nat \<Rightarrow> 32 word \<times> nat" where
  "vint_scan first msk width =
     (if width \<le> 8 \<and> first AND msk = 0
      then vint_scan first (signed_drop_bit 1 msk) (Suc width)
      else (msk, width))"
  by pat_completeness auto
termination
  by (relation "measure (\<lambda>(first, msk, width). 9 - width)") auto

declare vint_scan.simps [simp del]

definition readVint :: "8 word list \<Rightarrow> nat \<Rightarrow> bool \<Rightarrow> (int \<times> nat) option" where
  "readVint dv pos forId =
     (if pos \<ge> length dv then None
      else
        (let first = (ucast (dv ! pos) :: 32 word);
             (msk, width) = vint_scan first 0x80 1
         in if width > 8 \<or> pos + width > length dv then None
            else
              (let value = (if forId then first else first AND NOT msk);
                   value = foldl (\<lambda>v i. push_bit 8 v OR ucast (dv ! (pos + i))) value [1..<width]
               in Some (sint value, width))))"

text \<open>
  The reading of the specification, for comparison. The width is the position, counted
  from the most significant bit down, of the highest set bit of the leading byte (9 when
  the byte is zero). The value is the big-endian combination, as an unbounded integer, of
  the leading byte, with its marker bit for an element ID and without it for a size, and
  of the continuation bytes. The result is \<open>null\<close> when the position is outside the
  buffer, no marker bit is set, or the integer would end beyond the buffer.
\<close>

definition big_endian :: "nat list \<Rightarrow> nat" where
  "big_endian bs = foldl (\<lambda>a b. a * 256 + b) 0 bs"

definition vint_width :: "8 word \<Rightarrow> nat" where
  "vint_width b = (case find (\<lambda>w. bit b (8 - w)) [1 ..< 9] of Some w \<Rightarrow> w | None \<Rightarrow> 9)"

definition vint_spec :: "8 word list \<Rightarrow> nat \<Rightarrow> bool \<Rightarrow> (int \<times> nat) option" where
  "vint_spec dv pos forId =
     (if pos \<ge> length dv then None
      else
        (let w = vint_width (dv ! pos)
         in if w > 8 \<or> pos + w > length dv then None
            else
              (let lead = (if forId then unat (dv ! pos) else unat (dv ! pos) - 2 ^ (8 - w))
               in Some (int (big_endian (lead # map unat (take (w - 1) (drop (pos + 1) dv)))), w))))"

section \<open>Detector.js: classification of an XMP packet\<close>



















section \<open>Shaders.js: the anaglyph fragment shader\<close>

text \<open>
  GLSL floats are idealised as reals; vectors are tuples of components. The built-in
  functions are those of the GLSL specification.
\<close>

type_synonym vec2 = "real \<times> real"
type_synonym vec3 = "real \<times> real \<times> real"
type_synonym vec4 = "real \<times> real \<times> real \<times> real"

definition glsl_clamp :: "real \<Rightarrow> real \<Rightarrow> real \<Rightarrow> real" where
  "glsl_clamp x lo hi = min (max x lo) hi"

definition glsl_mix :: "real \<Rightarrow> real \<Rightarrow> real \<Rightarrow> real" where
  "glsl_mix x y a = x * (1 - a) + y * a"

definition glsl_step :: "real \<Rightarrow> real \<Rightarrow> real" where
  "glsl_step edge x = (if x < edge then 0 else 1)"

definition glsl_smoothstep :: "real \<Rightarrow> real \<Rightarrow> real \<Rightarrow> real" where
  "glsl_smoothstep e0 e1 x =
     (let t = glsl_clamp ((x - e0) / (e1 - e0)) 0 1 in t * t * (3 - 2 * t))"

definition clamp3 :: "vec3 \<Rightarrow> real \<Rightarrow> real \<Rightarrow> vec3" where
  "clamp3 c lo hi =
     (case c of (r, g, b) \<Rightarrow> (glsl_clamp r lo hi, glsl_clamp g lo hi, glsl_clamp b lo hi))"

definition rgb :: "vec4 \<Rightarrow> vec3" where
  "rgb c = (case c of (r, g, b, a) \<Rightarrow> (r, g, b))"

definition featherAxis :: "real \<Rightarrow> real \<Rightarrow> real" where
  "featherAxis coord feather =
     (if feather \<le> 0 then 1
      else glsl_smoothstep 0 feather coord * glsl_smoothstep 0 feather (1 - coord))"

definition edgeFade :: "vec2 \<Rightarrow> vec2 \<Rightarrow> real" where
  "edgeFade uv feather = featherAxis (fst uv) (fst feather) * featherAxis (snd uv) (snd feather)"

text \<open>The uniforms that \<open>ANAGLYPH_FRAGMENT_SHADER\<close> declares (the sampler is passed apart).\<close>

record anaglyph_uniforms =
  uLayout :: int
  uSwapEyes :: int
  uHalfRes :: bool
  uEdgeFeather :: vec2
  uAntiRed :: real
  uAntiGreen :: real
  uAntiBlue :: real
  uGreenBalance :: real
  uConvergence :: real
  uDepth :: real

text \<open>
  The sampling coordinates of the two eyes, from the equirectangular coordinate \<open>uv\<close>
  (the result of \<open>getEquirectUV\<close>): the half of the frame, the convergence shift and the
  depth scaling, then the optional swap.
\<close>

definition anaglyph_eye_uvs :: "anaglyph_uniforms \<Rightarrow> vec2 \<Rightarrow> vec2 \<times> vec2" where
  "anaglyph_eye_uvs u uv =
     (let cnv = glsl_clamp (uConvergence u) 0 1;
          depthAmount = glsl_clamp (uDepth u) 0 1 * 0.1;
          shift = (if uLayout u = 1 then 0 else 0.01 * ((cnv - 0.5) * 2));
          ux = fst uv; uy = snd uv;
          (uvL, uvR) =
            (if uLayout u \<noteq> 1
             then
               (let baseL = (if uHalfRes u then (0.25 + (ux - 0.5) * 0.25, uy) else (ux * 0.5, uy));
                    baseR = (if uHalfRes u then (0.75 + (ux - 0.5) * 0.25, uy) else (ux * 0.5 + 0.5, uy));
                    adjustedLeft = glsl_clamp (fst baseL + shift) 0 1;
                    adjustedRight = glsl_clamp (fst baseR - shift) 0 1;
                    localLeft = (adjustedLeft - 0.25) * 2;
                    localRight = (adjustedRight - 0.75) * 2;
                    depthScaleLeft = glsl_mix (1 + depthAmount) (1 - depthAmount) (glsl_clamp \<bar>localLeft\<bar> 0 1);
                    depthScaleRight = glsl_mix (1 - depthAmount) (1 + depthAmount) (glsl_clamp \<bar>localRight\<bar> 0 1);
                    localLeft = localLeft * depthScaleLeft;
                    localRight = localRight * depthScaleRight
                in ((0.25 + localLeft * 0.5, snd baseL), (0.75 + localRight * 0.5, snd baseR)))
             else
               (let baseL = (if uHalfRes u then (ux, 0.25 + (uy - 0.5) * 0.25) else (ux, uy * 0.5));
                    baseR = (if uHalfRes u then (ux, 0.75 + (uy - 0.5) * 0.25) else (ux, uy * 0.5 + 0.5));
                    adjustedTop = glsl_clamp (snd baseL + shift) 0 1;
                    adjustedBottom = glsl_clamp (snd baseR - shift) 0 1;
                    localTop = (adjustedTop - 0.25) * 2;
                    localBottom = (adjustedBottom - 0.75) * 2;
                    depthScaleTop = glsl_mix (1 + depthAmount) (1 - depthAmount) (glsl_clamp \<bar>localTop\<bar> 0 1);
                    depthScaleBottom = glsl_mix (1 - depthAmount) (1 + depthAmount) (glsl_clamp \<bar>localBottom\<bar> 0 1);
                    localTop = localTop * depthScaleTop;
                    localBottom = localBottom * depthScaleBottom
                in ((fst baseL, 0.25 + localTop * 0.5), (fst baseR, 0.75 + localBottom * 0.5))))
      in if uSwapEyes u = 1 then (uvR, uvL) else (uvL, uvR))"

text \<open>
  The compositing of the two sampled texels: the colour before the edge fade is applied
  (from \<open>float antiRed = ...\<close> to \<open>color = clamp(color, 0.0, 1.0)\<close>).
\<close>

definition anaglyph_color :: "anaglyph_uniforms \<Rightarrow> vec3 \<Rightarrow> vec3 \<Rightarrow> vec3" where
  "anaglyph_color u leftRGB rightRGB =
     (case leftRGB of (lr, lg, lb) \<Rightarrow> case rightRGB of (rr, rg, rb) \<Rightarrow>
        (let antiRed = glsl_clamp (uAntiRed u) 0 1 * 0.5;
             antiGreen = glsl_clamp (uAntiGreen u) 0 1 * 0.5;
             antiBlue = glsl_clamp (uAntiBlue u) 0 1 * 0.5;
             greenBalance = glsl_clamp (uGreenBalance u) 0 1 * 0.5;
             leftGreenShare = lg * greenBalance;
             rightGreenShare = rg * (1 - greenBalance);
             redChannel = glsl_clamp (lr + leftGreenShare) 0 1;
             preservedRed = 1 - antiRed;
             preservedGreen = 1 - antiGreen;
             preservedBlue = 1 - antiBlue;
             gainRed = 1 / max 0.01 (1 - antiRed * 0.2126);
             gainGreen = 1 / max 0.01 (1 - antiGreen * 0.7152);
             gainBlue = 1 / max 0.01 (1 - antiBlue * 0.0722)
         in clamp3 (redChannel * preservedRed * gainRed,
                    rightGreenShare * preservedGreen * gainGreen,
                    rb * preservedBlue * gainBlue) 0 1))"

text \<open>
  The shader's \<open>main\<close> from the equirectangular coordinate on: sample both eyes from the
  texture \<open>tex\<close>, composite, multiply by the edge fade; alpha is 1.
\<close>

definition ANAGLYPH_FRAGMENT_SHADER :: "anaglyph_uniforms \<Rightarrow> (vec2 \<Rightarrow> vec4) \<Rightarrow> vec2 \<Rightarrow> vec4" where
  "ANAGLYPH_FRAGMENT_SHADER u tex uv =
     (let fade = edgeFade uv (uEdgeFeather u);
          uvs = anaglyph_eye_uvs u uv;
          leftRGB = rgb (tex (fst uvs));
          rightRGB = rgb (tex (snd uvs))
      in case anaglyph_color u leftRGB rightRGB of (r, g, b) \<Rightarrow> (r * fade, g * fade, b * fade, 1))"

subsection \<open>The Dubois composite\<close>

text \<open>
  The repository also holds an earlier revision of the shader file, whose anaglyph
  shaders (commented \<open>Dubois\<close>) linearise the two texels, apply the two Dubois matrices,
  clamp and encode again. \<open>mat3(...)\<close> takes its nine arguments column by column;
  \<open>M_left\<close> and \<open>M_right\<close> are the matrices of the left and of the right eye.
\<close>

definition sRGBToLinear1 :: "real \<Rightarrow> real" where
  "sRGBToLinear1 c =
     glsl_mix (c / 12.92) (((c + 0.055) / 1.055) powr 2.4) (glsl_step 0.04045 c)"

definition linearToSRGB1 :: "real \<Rightarrow> real" where
  "linearToSRGB1 c0 =
     (let c = max c0 0
      in glsl_clamp (glsl_mix (12.92 * c) (1.055 * (c powr (1 / 2.4)) - 0.055) (glsl_step 0.0031308 c)) 0 1)"

definition sRGBToLinear :: "vec3 \<Rightarrow> vec3" where
  "sRGBToLinear c = (case c of (r, g, b) \<Rightarrow> (sRGBToLinear1 r, sRGBToLinear1 g, sRGBToLinear1 b))"

definition linearToSRGB :: "vec3 \<Rightarrow> vec3" where
  "linearToSRGB c = (case c of (r, g, b) \<Rightarrow> (linearToSRGB1 r, linearToSRGB1 g, linearToSRGB1 b))"

text \<open>A matrix is the triple of its columns; \<open>mat3_mul m v\<close> is the product \<open>m * v\<close>.\<close>

definition mat3_mul :: "vec3 \<times> vec3 \<times> vec3 \<Rightarrow> vec3 \<Rightarrow> vec3" where
  "mat3_mul m v =
     (case m of ((a0, a1, a2), (b0, b1, b2), (c0, c1, c2)) \<Rightarrow> case v of (x, y, z) \<Rightarrow>
        (a0 * x + b0 * y + c0 * z, a1 * x + b1 * y + c1 * z, a2 * x + b2 * y + c2 * z))"

definition vec3_add :: "vec3 \<Rightarrow> vec3 \<Rightarrow> vec3" where
  "vec3_add a b = (case a of (a0, a1, a2) \<Rightarrow> case b of (b0, b1, b2) \<Rightarrow> (a0 + b0, a1 + b1, a2 + b2))"

definition M_left :: "vec3 \<times> vec3 \<times> vec3" where
  "M_left = ((0.456100, -0.0400822, -0.0152161),
         (0.500484, -0.0378246, -0.0205971),
         (0.176381, -0.0157589, -0.00546856))"

definition M_right :: "vec3 \<times> vec3 \<times> vec3" where
  "M_right = ((-0.0434706, 0.378476, -0.0721527),
         (-0.0879388, 0.733640, -0.1129610),
         (-0.00155529, -0.0184503, 1.2264000))"

definition dubois_color :: "vec3 \<Rightarrow> vec3 \<Rightarrow> vec3" where
  "dubois_color leftTexel rightTexel =
     (let leftRGB = sRGBToLinear leftTexel;
          rightRGB = sRGBToLinear rightTexel;
          colorLinear = clamp3 (vec3_add (mat3_mul M_left leftRGB) (mat3_mul M_right rightRGB)) 0 1
      in linearToSRGB colorLinear)"

text \<open>
  The calibration at rest: no leak suppression, green balance 0.5, convergence at its
  midpoint, no depth compression; side-by-side layout, no feathering.
\<close>

definition calibration_off :: anaglyph_uniforms where
  "calibration_off =
     \<lparr> uLayout = 0, uSwapEyes = 0, uHalfRes = False, uEdgeFeather = (0, 0),
       uAntiRed = 0, uAntiGreen = 0, uAntiBlue = 0, uGreenBalance = 0.5,
       uConvergence = 0.5, uDepth = 0 \<rparr>"

section \<open>Initial states and observations\<close>

text \<open>
  The renderer as its constructor leaves it, for a canvas of the given client size:
  the orthographic camera is current, the mesh is a plane with a double-sided
  \<open>MeshBasicMaterial\<close> that carries no type tag, the perspective camera has the default
  field of view, and no projection spans are recorded yet.
\<close>

definition initRender :: "nat \<Rightarrow> nat \<Rightarrow> render" where
  "initRender cw ch =
     \<lparr> mesh = Some (Some ((createMeshBasicMaterial 0)\<lparr>side := DoubleSide\<rparr>)),
       mesh_geometry = PlaneGeometry,
       next_id = 1,
       disposed = [],
       camera = OrthographicCamera,
       perspFov = VR_VFOV_DEG,
       perspRotation = (Num 0, Num 0),
       orthoRotation = (Num 0, Num 0),
       projHFovDeg = None,
       projVFovDeg = None,
       clientWidth = cw,
       clientHeight = ch,
       isDragging = False,
       dragLastX = Num 0,
       dragLastY = Num 0,
       yaw = Num 0,
       pitch = Num 0,
       frame_active = False,
       renders = 0 \<rparr>"

text \<open>
  The defaults of Store.js, for a video of the given name and decoded size (the store's
  \<open>name\<close> is \<open>null\<close> until a file is opened).
\<close>

definition storeDefaults :: "string \<Rightarrow> nat \<Rightarrow> nat \<Rightarrow> store_state" where
  "storeDefaults n w h =
     \<lparr> video = \<lparr> videoTracks = None, videoWidth = w, videoHeight = h \<rparr>,
       name = code_units n,
       view = ''watch'',
       projection = ''flat'',
       layout = ''sbs'',
       resolution = ''half'',
       eye = ''left'',
       antiR = Num 0,
       antiG = Num 0,
       antiB = Num 0,
       balance = Num 0,
       convergence = Num 0.5,
       depthCompression = Num 0 \<rparr>"

text \<open>The identity of the bound material and the value of one of its uniforms.\<close>

definition bound_id :: "render \<Rightarrow> nat option" where
  "bound_id r = (case mesh r of Some (Some m) \<Rightarrow> Some (mat_id m) | _ \<Rightarrow> None)"

definition uniform_of :: "render \<Rightarrow> string \<Rightarrow> uvalue option" where
  "uniform_of r k =
     (case mesh r of
        Some (Some m) \<Rightarrow> (case uniforms m of Some u \<Rightarrow> map_of u k | None \<Rightarrow> None)
      | _ \<Rightarrow> None)"

text \<open>
  The caching contract in the words of the specification: along a sequence of states,
  a material is built for exactly those states whose resolved tag differs from the tag
  bound before them. \<open>type_changes\<close> counts these states.
\<close>

fun type_changes :: "string option \<Rightarrow> store_state list \<Rightarrow> nat" where
  "type_changes cur [] = 0"
| "type_changes cur (s # ss) =
     (if cur \<noteq> Some (intendedType s) then 1 else 0) + type_changes (Some (intendedType s)) ss"

definition material_types :: "string list" where
  "material_types = [''vr-equirect'', ''vr-anaglyph'', ''flat-basic'', ''flat-anaglyph'', ''flat-watch'']"


section \<open>Rounding: properties\<close>

lemma fl_not_NaN [simp]: "fl x \<noteq> NaN"
  by (simp add: fl_def Let_def)

lemma fl_zero [simp]: "fl 0 = Num 0"
  by (simp add: fl_def)

lemma fl_ulp_pos: "0 < fl_ulp x"
  by (simp add: fl_ulp_def)

lemma round_half_even_err: "\<bar>of_int (round_half_even q) - q\<bar> \<le> 1 / 2"
  unfolding round_half_even_def Let_def by (auto; linarith)

lemma round_half_even_int [simp]: "round_half_even (of_int n) = n"
  by (simp add: round_half_even_def)

lemma round_half_even_nonneg: "0 \<le> q \<Longrightarrow> 0 \<le> round_half_even q"
  unfolding round_half_even_def Let_def by auto

lemma round_half_even_pos: "1 \<le> q \<Longrightarrow> 1 \<le> round_half_even q"
  unfolding round_half_even_def Let_def by (auto; linarith)

lemma round_half_even_small: "0 \<le> q \<Longrightarrow> q < 1 / 2 \<Longrightarrow> round_half_even q = 0"
proof -
  assume a: "0 \<le> q" "q < 1 / 2"
  then have "\<lfloor>q\<rfloor> = 0" by linarith
  then show ?thesis using a by (simp add: round_half_even_def)
qed

lemma fl_exponent_binade:
  assumes "2 powr of_int k \<le> \<bar>x\<bar>" "\<bar>x\<bar> < 2 powr of_int (k + 1)"
  shows "fl_exponent x = max k (- 1022)"
proof -
  have "0 < \<bar>x\<bar>" using assms(1) powr_gt_zero [of 2 "of_int k"] by linarith
  then have "\<lfloor>log 2 \<bar>x\<bar>\<rfloor> = k"
    using assms by (simp add: floor_log_eq_powr_iff)
  then show ?thesis by (simp add: fl_exponent_def)
qed


lemma powr_nonpos_le_one: "a \<le> 0 \<Longrightarrow> (2::real) powr a \<le> 1"
  using powr_mono [of a 0 "2::real"] by simp

lemma lt_big: "x \<le> 128 \<Longrightarrow> x < (2::real) ^ 1023"
proof -
  assume a: "x \<le> 128"
  have "(2::real) ^ 7 < 2 ^ 1023" by (rule power_strict_increasing) simp_all
  then have "(128::real) < 2 ^ 1023" by simp
  then show ?thesis using a by linarith
qed

lemma fl_ulp_le:
  assumes "x \<noteq> 0"
  shows "fl_ulp x \<le> max (\<bar>x\<bar> * 2 powr (- 52)) (2 powr (- 1074))"
proof -
  have pos: "0 < \<bar>x\<bar>" using assms by simp
  define k where "k = \<lfloor>log 2 \<bar>x\<bar>\<rfloor>"
  have kx: "2 powr of_int k \<le> \<bar>x\<bar>"
    using pos floor_log_eq_powr_iff [of "\<bar>x\<bar>" 2 k] by (simp add: k_def)
  have e: "fl_exponent x = max k (- 1022)"
    by (simp add: fl_exponent_def k_def)
  show ?thesis
  proof (cases "- 1022 \<le> k")
    case True
    then have "fl_ulp x = 2 powr (of_int k - 52)"
      unfolding fl_ulp_def e by simp
    also have "\<dots> = 2 powr of_int k * 2 powr (- 52)"
      using powr_add [of 2 "of_int k" "- 52"] by simp
    also have "\<dots> \<le> \<bar>x\<bar> * 2 powr (- 52)"
      using kx by (intro mult_right_mono) auto
    finally show ?thesis by simp
  next
    case False
    then have "fl_ulp x = 2 powr (- 1074)"
      unfolding fl_ulp_def e by simp
    then show ?thesis by simp
  qed
qed


lemma round_half_even_le_double: "0 \<le> q \<Longrightarrow> of_int (round_half_even q) \<le> 2 * q"
proof (cases "q < 1 / 2")
  case True
  assume "0 \<le> q"
  then show ?thesis using True by (simp add: round_half_even_small)
next
  case False
  then show ?thesis using round_half_even_err [of q] by linarith
qed

lemma fl_nonneg:
  assumes "0 \<le> x" "x < 2 ^ 1023"
  shows "\<exists>r. fl x = Num r \<and> 0 \<le> r \<and> r \<le> 2 * x"
proof (cases "x = 0")
  case True
  then show ?thesis by simp
next
  case False
  let ?u = "fl_ulp x"
  let ?n = "round_half_even (x / ?u)"
  have u: "0 < ?u" by (rule fl_ulp_pos)
  have q: "0 \<le> x / ?u" using assms(1) u by simp
  have n0: "0 \<le> (of_int ?n :: real)" using round_half_even_nonneg [OF q] by simp
  have "of_int ?n * ?u \<le> (2 * (x / ?u)) * ?u"
    using round_half_even_le_double [OF q] u by (intro mult_right_mono) auto
  then have le: "of_int ?n * ?u \<le> 2 * x" using u by simp
  have ge: "0 \<le> of_int ?n * ?u" using n0 u by simp
  have "2 * x < 2 ^ 1024" using assms(2) by simp
  then have "\<not> 2 ^ 1024 \<le> \<bar>of_int ?n * ?u\<bar>" using le ge by linarith
  then have "fl x = Num (of_int ?n * ?u)" using False by (simp add: fl_def Let_def)
  then show ?thesis using le ge by blast
qed

lemma fl_err:
  assumes "\<bar>x\<bar> < 2 ^ 1023"
  shows "\<exists>r. fl x = Num r \<and> \<bar>r - x\<bar> \<le> \<bar>x\<bar> * 2 powr (- 53) + 2 powr (- 1075)"
proof (cases "x = 0")
  case True
  then show ?thesis by simp
next
  case False
  let ?u = "fl_ulp x"
  let ?n = "round_half_even (x / ?u)"
  let ?r = "of_int ?n * ?u"
  have u: "0 < ?u" by (rule fl_ulp_pos)
  have "\<bar>?r - x\<bar> = \<bar>of_int ?n - x / ?u\<bar> * ?u"
  proof -
    have "?r - x = (of_int ?n - x / ?u) * ?u" using u by (simp add: algebra_simps)
    then show ?thesis using u by (simp add: abs_mult)
  qed
  also have "\<dots> \<le> 1 / 2 * ?u"
    using round_half_even_err [of "x / ?u"] u by (intro mult_right_mono) auto
  finally have e: "\<bar>?r - x\<bar> \<le> ?u / 2" by simp
  have h53: "2 powr (- 52) / 2 = (2::real) powr (- 53)"
    using powr_add [of "2::real" "- 53" 1] by simp
  have h1075: "2 powr (- 1074) / 2 = (2::real) powr (- 1075)"
    using powr_add [of "2::real" "- 1075" 1] by simp
  have "max (\<bar>x\<bar> * 2 powr (- 52)) (2 powr (- 1074)) \<le> \<bar>x\<bar> * 2 powr (- 52) + 2 powr (- 1074)"
    by (simp add: max_def)
  then have "?u \<le> \<bar>x\<bar> * 2 powr (- 52) + 2 powr (- 1074)"
    using fl_ulp_le [OF False] by linarith
  then have "?u / 2 \<le> \<bar>x\<bar> * (2 powr (- 52) / 2) + 2 powr (- 1074) / 2" by simp
  then have ub: "?u / 2 \<le> \<bar>x\<bar> * 2 powr (- 53) + 2 powr (- 1075)"
    by (simp only: h53 h1075)
  have err: "\<bar>?r - x\<bar> \<le> \<bar>x\<bar> * 2 powr (- 53) + 2 powr (- 1075)"
    using e ub by linarith
  have p53: "(2::real) powr (- 53) \<le> 1 / 2"
    using powr_nonpos_le_one [of "- 52"] h53 by simp
  have p1075: "(2::real) powr (- 1075) \<le> 1" by (rule powr_nonpos_le_one) simp
  have "\<bar>x\<bar> * 2 powr (- 53) \<le> \<bar>x\<bar> * (1 / 2)"
    using p53 by (intro mult_left_mono) auto
  then have "\<bar>?r\<bar> \<le> \<bar>x\<bar> + \<bar>x\<bar> / 2 + 1" using err p1075 by linarith
  moreover have "\<bar>x\<bar> + \<bar>x\<bar> / 2 + 1 < 2 ^ 1024" using assms by simp
  ultimately have "\<not> 2 ^ 1024 \<le> \<bar>?r\<bar>" by linarith
  then have "fl x = Num ?r" using False by (simp add: fl_def Let_def)
  then show ?thesis using err by blast
qed

lemma fl_pos:
  assumes "2 powr (- 1022) \<le> x" "x < 2 ^ 1023"
  shows "\<exists>r. fl x = Num r \<and> 0 < r"
proof -
  have x0: "0 < x" using assms(1) powr_gt_zero [of 2 "- 1022"] by linarith
  let ?u = "fl_ulp x"
  let ?n = "round_half_even (x / ?u)"
  have u: "0 < ?u" by (rule fl_ulp_pos)
  have s: "2 powr (- 1022) * 2 powr (- 52) = (2::real) powr (- 1074)"
    using powr_add [of "2::real" "- 1022" "- 52"] by simp
  have "2 powr (- 1022) * 2 powr (- 52) \<le> x * 2 powr (- 52)"
    using assms(1) by (intro mult_right_mono) auto
  then have "2 powr (- 1074) \<le> \<bar>x\<bar> * 2 powr (- 52)" using x0 s by simp
  then have "?u \<le> x * 2 powr (- 52)"
    using fl_ulp_le [of x] x0 by (simp add: max_def split: if_splits)
  also have "\<dots> \<le> x * 1"
    using x0 powr_nonpos_le_one [of "- 52"] by (intro mult_left_mono) auto
  finally have "?u \<le> x" by simp
  then have "1 \<le> x / ?u" using u by simp
  then have "1 \<le> ?n" by (rule round_half_even_pos)
  then have "0 < (of_int ?n :: real)" by simp
  then have pos: "0 < of_int ?n * ?u" using u by simp
  obtain r where r: "fl x = Num r" "0 \<le> r"
    using fl_nonneg [of x] x0 assms(2) by auto
  have "fl x = Num (of_int ?n * ?u)"
    using r(1) x0 by (simp add: fl_def Let_def split: if_splits)
  then show ?thesis using pos by blast
qed

lemma fl_binade:
  assumes "2 powr of_int k \<le> \<bar>x\<bar>" "\<bar>x\<bar> < 2 powr of_int (k + 1)" "- 1022 \<le> k" "k \<le> 1021"
  shows "fl x = Num (of_int (round_half_even (x / 2 powr of_int (k - 52))) * 2 powr of_int (k - 52))"
proof -
  have x0: "x \<noteq> 0" using assms(1) powr_gt_zero [of 2 "of_int k"] by auto
  have u: "fl_ulp x = 2 powr of_int (k - 52)"
    using fl_exponent_binade [OF assms(1,2)] assms(3) by (simp add: fl_ulp_def)
  have "2 powr of_int (k + 1) \<le> (2::real) powr 1022"
    using assms(4) by (intro powr_mono) auto
  then have "\<bar>x\<bar> < 2 ^ 1023" using assms(2) by simp
  then obtain r where r: "fl x = Num r" using fl_err [of x] by blast
  then show ?thesis using x0 u by (simp add: fl_def Let_def split: if_splits)
qed



lemma fl_179: "fl 179 = Num 179"
  using fl_binade [of 7 179] by (simp add: round_half_even_def powr_neg_numeral Let_def)

lemma fl_2PI: "fl (2 * Math_PI) = Num (2 * Math_PI)"
  using fl_binade [of 2 "2 * Math_PI"]
  by (simp add: round_half_even_def Math_PI_def powr_neg_numeral Let_def)

lemma fl_half_179: "fl (179 / 2) = Num (179 / 2)"
  using fl_binade [of 6 "179 / 2"] by (simp add: round_half_even_def powr_neg_numeral Let_def)

lemma fl_deg: "fl (Math_PI / 180) = Num (5030569068109113 / 2 ^ 58)"
  using fl_binade [of "- 6" "Math_PI / 180"]
  by (simp add: round_half_even_def Math_PI_def powr_neg_numeral Let_def)

lemma fl_rad: "fl (180 / Math_PI) = Num (1007958012753983 / 2 ^ 44)"
  using fl_binade [of 5 "180 / Math_PI"]
  by (simp add: round_half_even_def Math_PI_def powr_neg_numeral Let_def)

lemma fl_two_rad: "fl (2 * (1007958012753983 / 2 ^ 44)) = Num (1007958012753983 / 2 ^ 43)"
  using fl_binade [of 6 "2 * (1007958012753983 / 2 ^ 44)"]
  by (simp add: round_half_even_def powr_neg_numeral Let_def)

lemma fl_half_179_rad:
  "fl (5030569068109113 / 2 ^ 58 * (179 / 2)) = Num (3517468215591919 / 2 ^ 51)"
  using fl_binade [of 0 "5030569068109113 / 2 ^ 58 * (179 / 2)"]
  by (simp add: round_half_even_def powr_neg_numeral Let_def)


section \<open>Field-of-view conversions and clamps: properties\<close>


lemma js_min_NaN_right [simp]: "js_min a NaN = NaN"
  by (cases a) auto

lemma js_max_NaN_right [simp]: "js_max a NaN = NaN"
  by (cases a) auto

lemma js_min_not_NaN: "a \<noteq> NaN \<Longrightarrow> b \<noteq> NaN \<Longrightarrow> js_min a b \<noteq> NaN"
  by (cases a; cases b) auto

lemma js_clamp_Num:
  assumes "x \<noteq> NaN" "lo \<le> hi"
  shows "\<exists>r. js_max (Num lo) (js_min (Num hi) x) = Num r \<and> lo \<le> r \<and> r \<le> hi"
  using assms by (cases x) auto

lemma sym_clamp_Num:
  assumes "x \<noteq> NaN" "0 \<le> l"
  shows "\<exists>r. js_max (js_neg (Num l)) (js_min (Num l) x) = Num r \<and> \<bar>r\<bar> \<le> l"
  using assms by (cases x) auto

lemma cos_25_16: "1 / 128 \<le> cos (25 / 16 :: real)"
proof -
  let ?x = "25 / 16 :: real"
  obtain t where t: "cos ?x = (\<Sum>m<12. cos_coeff m * ?x ^ m)
                       + (cos (t + 1 / 2 * real (12::nat) * pi) / fact 12) * ?x ^ 12"
    using Maclaurin_cos_expansion [of ?x 12] by blast
  have "- 1 \<le> cos (t + 1 / 2 * real (12::nat) * pi)" by (rule cos_ge_minus_one)
  then have "- 1 * (?x ^ 12 / fact 12) \<le> cos (t + 1 / 2 * real (12::nat) * pi) * (?x ^ 12 / fact 12)"
    by (intro mult_right_mono) auto
  then have r: "- (?x ^ 12 / fact 12) \<le> (cos (t + 1 / 2 * real (12::nat) * pi) / fact 12) * ?x ^ 12"
    by simp
  have s: "1 / 128 + ?x ^ 12 / fact 12 \<le> (\<Sum>m<12. cos_coeff m * ?x ^ m)"
    by (simp add: lessThan_nat_numeral cos_coeff_def fact_numeral power_divide)
  show ?thesis using t r s by linarith
qed


lemma tan_X179: "1 \<le> tan X179 \<and> tan X179 \<le> 128"
proof -
  have x1: "1 \<le> X179" and x2: "X179 \<le> 25 / 16" by (simp_all add: X179_def)
  have "cos (25 / 16) \<le> cos X179"
    using x1 x2 pi_ge_two by (intro cos_monotone_0_pi_le) auto
  then have c: "1 / 128 \<le> cos X179" using cos_25_16 by linarith
  have lt: "X179 < pi / 2"
  proof (rule ccontr)
    assume "\<not> X179 < pi / 2"
    then have "pi / 2 \<le> X179" by simp
    then have "cos X179 \<le> cos (pi / 2)"
      using x2 pi_ge_two by (intro cos_monotone_0_pi_le) auto
    then show False using c by simp
  qed
  have "pi / 4 \<le> X179" using pi_less_4 x1 by linarith
  then have "tan (pi / 4) \<le> tan X179"
    using lt by (intro tan_mono_le) auto
  then have lo: "1 \<le> tan X179" by (simp add: tan_45)
  have "tan X179 = sin X179 / cos X179" by (simp add: tan_def)
  also have "\<dots> \<le> 1 / cos X179"
    using c by (intro divide_right_mono) auto
  also have "\<dots> \<le> 1 / (1 / 128)"
    using c by (intro divide_left_mono) auto
  finally show ?thesis using lo by simp
qed

lemma js_tan_X179: "\<exists>t. js_tan (Num X179) = Num t \<and> 0 < t"
proof -
  have "(2::real) powr (- 1022) \<le> 1" by (rule powr_nonpos_le_one) simp
  then have "2 powr (- 1022) \<le> tan X179" using tan_X179 by linarith
  moreover have "tan X179 < 2 ^ 1023" using tan_X179 by (intro lt_big) simp
  ultimately show ?thesis using fl_pos [of "tan X179"] by simp
qed

lemma js_atan_Num: "x \<noteq> NaN \<Longrightarrow> \<exists>z. js_atan x = Num z"
proof (cases x)
  case (Num y)
  have "\<bar>arctan y\<bar> < 2"
    using arctan_bounded [of y] pi_half_less_two by linarith
  then have "\<bar>arctan y\<bar> < 2 ^ 1023" by (intro lt_big) simp
  then show ?thesis using fl_err [of "arctan y"] Num by auto
next
  case PInf
  have "\<bar>pi / 2\<bar> < 2 ^ 1023" using pi_half_less_two by (intro lt_big) simp
  then show ?thesis using fl_err [of "pi / 2"] PInf by auto
next
  case NInf
  have "\<bar>- (pi / 2)\<bar> < 2 ^ 1023" using pi_half_less_two by (intro lt_big) simp
  then show ?thesis using fl_err [of "- (pi / 2)"] NInf by auto
qed simp

lemma rad_factor: "js_div (Num Math_PI) (Num 180) = Num (5030569068109113 / 2 ^ 58)"
  using fl_deg by simp

lemma deg_factor:
  "js_mul (Num 2) (js_div (Num 180) (Num Math_PI)) = Num (1007958012753983 / 2 ^ 43)"
proof -
  have "Math_PI \<noteq> 0" by (simp add: Math_PI_def)
  then have "js_div (Num 180) (Num Math_PI) = Num (1007958012753983 / 2 ^ 44)"
    using fl_rad by simp
  then show ?thesis using fl_two_rad by (simp del: mult_numeral_left_semiring_numeral)
qed


lemma js_sub_180_1: "js_sub (Num 180) (Num 1) = Num 179"
  using fl_179 by (simp add: js_sub_def)

lemma vFromH_not_NaN:
  assumes "aspect \<noteq> NaN"
  shows "hFovDegToVFovDeg (js_max (Num 1) (js_sub (Num 180) (Num 1))) aspect \<noteq> NaN"
proof -
  have h: "js_max (Num 1) (js_sub (Num 180) (Num 1)) = Num 179"
    by (simp add: js_sub_180_1)
  have d: "js_div (Num 179) (Num 2) = Num (179 / 2)"
    using fl_half_179 by simp
  have m: "js_mul (Num (5030569068109113 / 2 ^ 58)) (Num (179 / 2)) = Num X179"
    using fl_half_179_rad by (simp only: js_mul.simps X179_def)
  obtain t where t: "js_tan (Num X179) = Num t" "0 < t"
    using js_tan_X179 by blast
  have q: "js_div (Num t) aspect \<noteq> NaN"
    using assms t(2) by (cases aspect) auto
  then obtain z where z: "js_atan (js_div (Num t) aspect) = Num z"
    using js_atan_Num by blast
  have "hFovDegToVFovDeg (js_max (Num 1) (js_sub (Num 180) (Num 1))) aspect
        = js_mul (Num (1007958012753983 / 2 ^ 43)) (Num z)"
    unfolding hFovDegToVFovDeg_def h deg_factor rad_factor d m t(1) z ..
  then show ?thesis by simp
qed

lemma currentAspect_not_NaN: "currentAspect cw ch \<noteq> NaN"
  by (simp add: currentAspect_def)

lemma clampFov_vr:
  assumes "vFov \<noteq> NaN" "aspect \<noteq> NaN" "isVrProjection p"
  shows "\<exists>r. clampFov vFov VR_VFOV_MIN_DEG VR_VFOV_MAX_DEG (projVFov p) (projHFov p) aspect = Num r
           \<and> 20 \<le> r \<and> r \<le> 179"
proof -
  have p: "p = ''vr180'' \<or> p = ''vr360''"
    using assms(3) by (simp add: isVrProjection_def)
  have vmax: "js_min VR_VFOV_MAX_DEG (js_sub (projVFov p) (Num 1)) = Num 179"
    using p by (auto simp: VR_VFOV_MAX_DEG_def projVFov_def js_sub_180_1)
  show ?thesis
  proof (cases "p = ''vr180''")
    case True
    let ?c = "js_min vFov (hFovDegToVFovDeg (js_max (Num 1) (js_sub (Num 180) (Num 1))) aspect)"
    have "?c \<noteq> NaN"
      using assms vFromH_not_NaN by (intro js_min_not_NaN) auto
    from js_clamp_Num [OF this, of 20 179]
    show ?thesis using True vmax
      by (simp add: clampFov_def projHFov_def VR_VFOV_MIN_DEG_def Let_def)
  next
    case False
    then have p360: "p = ''vr360''" using p by simp
    from js_clamp_Num [OF assms(1), of 20 179]
    show ?thesis using p360 vmax
      by (simp add: clampFov_def projHFov_def VR_VFOV_MIN_DEG_def Let_def)
  qed
qed









text \<open>
  C3, as stated, fails: \<open>clampFov\<close> does not map every vertical field of view into the
  interval. With the renderer's settings, under the 180 degree projection and a 1920 by
  1080 canvas, the input \<open>NaN\<close> is returned as \<open>NaN\<close>, which lies in no interval.
\<close>

theorem clampFov_propagates_NaN:
  "clampFov NaN VR_VFOV_MIN_DEG VR_VFOV_MAX_DEG (projVFov ''vr180'') (projHFov ''vr180'')
     (currentAspect 1920 1080) = NaN"
  by (simp add: clampFov_def Let_def)

text \<open>
  C3, amended. For every vertical field of view other than \<open>NaN\<close> (any finite value or
  an infinity), under the 180 and the 360 degree projection and for every client size of
  the canvas, \<open>clampFov\<close> called with the renderer's settings returns a number in the
  closed interval from the minimum to the maximum field of view, strictly below the
  projection's vertical field of view.
\<close>

theorem clampFov_in_bounds:
  assumes "vFov \<noteq> NaN" "isVrProjection p"
  shows "\<exists>r. clampFov vFov VR_VFOV_MIN_DEG VR_VFOV_MAX_DEG (projVFov p) (projHFov p)
                (currentAspect cw ch) = Num r
           \<and> js_le VR_VFOV_MIN_DEG (Num r) \<and> js_le (Num r) VR_VFOV_MAX_DEG
           \<and> js_lt (Num r) (projVFov p)"
proof -
  obtain r where r: "clampFov vFov VR_VFOV_MIN_DEG VR_VFOV_MAX_DEG (projVFov p) (projHFov p)
                       (currentAspect cw ch) = Num r" "20 \<le> r" "r \<le> 179"
    using clampFov_vr [OF assms(1) currentAspect_not_NaN assms(2)] by blast
  have "projVFov p = Num 180"
    using assms(2) by (auto simp: isVrProjection_def projVFov_def)
  then show ?thesis
    using r by (auto simp: js_le_def VR_VFOV_MIN_DEG_def VR_VFOV_MAX_DEG_def)
qed

theorem clampFov_in_bounds_witness:
  "PInf \<noteq> NaN \<and> isVrProjection ''vr180''
   \<and> (\<exists>r. clampFov PInf VR_VFOV_MIN_DEG VR_VFOV_MAX_DEG (projVFov ''vr180'') (projHFov ''vr180'')
              (currentAspect 1280 720) = Num r
         \<and> js_le VR_VFOV_MIN_DEG (Num r) \<and> js_le (Num r) VR_VFOV_MAX_DEG
         \<and> js_lt (Num r) (projVFov ''vr180''))"
proof -
  have h: "PInf \<noteq> NaN" "isVrProjection ''vr180''"
    by (simp_all add: isVrProjection_def)
  from clampFov_in_bounds [OF h, of 1280 720] h show ?thesis by blast
qed


lemma trunc_real_diff: "\<bar>q - trunc_real q\<bar> < 1"
  unfolding trunc_real_def by (auto; linarith)

lemma js_rem_bound:
  assumes "0 < y"
  shows "\<exists>r. js_rem (Num x) (Num y) = Num r \<and> \<bar>r\<bar> < y"
proof -
  have "x - y * trunc_real (x / y) = y * (x / y - trunc_real (x / y))"
    using assms by (simp add: algebra_simps)
  then have "\<bar>x - y * trunc_real (x / y)\<bar> = y * \<bar>x / y - trunc_real (x / y)\<bar>"
    using assms by (simp add: abs_mult)
  also have "\<dots> < y * 1"
    using assms trunc_real_diff [of "x / y"] by (intro mult_strict_left_mono) auto
  finally show ?thesis using assms by simp
qed

lemma limit_Num:
  assumes "0 \<le> c" "c \<le> 180"
  shows "\<exists>l. js_mul (js_div (js_sub (Num 180) (Num c)) (Num 2)) (js_div (Num Math_PI) (Num 180)) = Num l
             \<and> 0 \<le> l"
proof -
  have big: "(360::real) < 2 ^ 1023"
  proof -
    have "(2::real) ^ 9 < 2 ^ 1023" by (rule power_strict_increasing) simp_all
    then show ?thesis by simp
  qed
  obtain a where a: "fl (180 - c) = Num a" "0 \<le> a" "a \<le> 2 * (180 - c)"
    using fl_nonneg [of "180 - c"] assms big by auto
  have "2 * (180 - c) \<le> 360" using assms(1) by simp
  then have a360: "a \<le> 360" using a(3) by (rule order_trans [rotated])
  obtain b where b: "fl (a / 2) = Num b" "0 \<le> b" "b \<le> 2 * (a / 2)"
    using fl_nonneg [of "a / 2"] a(2) a360 big by auto
  have "2 * (a / 2) \<le> 360" using a360 by simp
  then have b360: "b \<le> 360" using b(3) by (rule order_trans [rotated])
  let ?k = "5030569068109113 / 2 ^ 58 :: real"
  have k: "0 \<le> ?k" "?k \<le> 1" by simp_all
  have "b * ?k \<le> b * 1" using k(2) b(2) by (intro mult_left_mono) auto
  then have "b * ?k < 2 ^ 1023" using b360 big by linarith
  moreover have "0 \<le> b * ?k" using b(2) k(1) by simp
  ultimately obtain l where l: "fl (b * ?k) = Num l" "0 \<le> l"
    using fl_nonneg [of "b * ?k"] by auto
  have s: "js_sub (Num 180) (Num c) = Num a"
    using a(1) by (simp add: js_sub_def)
  have d: "js_div (Num a) (Num 2) = Num b"
    using b(1) by simp
  have m: "js_mul (Num b) (Num ?k) = Num l"
    using l(1) by (simp only: js_mul.simps)
  show ?thesis unfolding s d rad_factor m using l(2) by simp
qed

lemma two_PI: "js_mul (Num 2) (Num Math_PI) = Num (2 * Math_PI)"
  using fl_2PI by (simp only: js_mul.simps)

lemma Math_PI_pos: "0 < Math_PI"
  by (simp add: Math_PI_def)

lemma clampYawPitch_pitch:
  assumes "ptc \<noteq> NaN" "isVrProjection p" "0 \<le> cv" "cv \<le> 180"
  shows "\<exists>l p'. js_mul (js_div (js_sub (projVFov p) (Num cv)) (Num 2))
                    (js_div (Num Math_PI) (Num 180)) = Num l
           \<and> snd (clampYawPitch yw ptc (projHFov p) (projVFov p) (Num cv) chf) = Num p'
           \<and> \<bar>p'\<bar> \<le> l"
proof -
  have pv: "projVFov p = Num 180"
    using assms(2) by (auto simp: isVrProjection_def projVFov_def)
  obtain l where l: "js_mul (js_div (js_sub (Num 180) (Num cv)) (Num 2))
                       (js_div (Num Math_PI) (Num 180)) = Num l" "0 \<le> l"
    using limit_Num [OF assms(3,4)] by blast
  obtain p' where p': "js_max (js_neg (Num l)) (js_min (Num l) ptc) = Num p'" "\<bar>p'\<bar> \<le> l"
    using sym_clamp_Num [OF assms(1) l(2)] by blast
  have "snd (clampYawPitch yw ptc (projHFov p) (projVFov p) (Num cv) chf) = Num p'"
    unfolding clampYawPitch_def pv Let_def l(1) p'(1) by simp
  then show ?thesis unfolding pv using l(1) p'(2) by blast
qed

lemma clampYawPitch_yaw_180:
  assumes "yw \<noteq> NaN" "0 \<le> ch" "ch \<le> 180"
  shows "\<exists>l y'. js_mul (js_div (js_sub (projHFov ''vr180'') (Num ch)) (Num 2))
                    (js_div (Num Math_PI) (Num 180)) = Num l
           \<and> fst (clampYawPitch yw ptc (projHFov ''vr180'') pv cv (Num ch)) = Num y'
           \<and> \<bar>y'\<bar> \<le> l"
proof -
  have ph: "projHFov ''vr180'' = Num 180" by (simp add: projHFov_def)
  obtain l where l: "js_mul (js_div (js_sub (Num 180) (Num ch)) (Num 2))
                       (js_div (Num Math_PI) (Num 180)) = Num l" "0 \<le> l"
    using limit_Num [OF assms(2,3)] by blast
  obtain y' where y': "js_max (js_neg (Num l)) (js_min (Num l) yw) = Num y'" "\<bar>y'\<bar> \<le> l"
    using sym_clamp_Num [OF assms(1) l(2)] by blast
  have "fst (clampYawPitch yw ptc (projHFov ''vr180'') pv cv (Num ch)) = Num y'"
    unfolding clampYawPitch_def ph Let_def l(1) y'(1) by simp
  then show ?thesis unfolding ph using l(1) y'(2) by blast
qed

lemma clampYawPitch_yaw_360:
  "\<exists>y'. fst (clampYawPitch (Num y) ptc (projHFov ''vr360'') pv cv ch) = Num y'
        \<and> \<bar>y'\<bar> < 2 * Math_PI"
proof -
  have ph: "projHFov ''vr360'' = Num 360" by (simp add: projHFov_def)
  obtain r where r: "js_rem (Num y) (Num (2 * Math_PI)) = Num r" "\<bar>r\<bar> < 2 * Math_PI"
    using js_rem_bound [of "2 * Math_PI" y] Math_PI_pos by auto
  have "fst (clampYawPitch (Num y) ptc (projHFov ''vr360'') pv cv ch) = Num r"
    unfolding clampYawPitch_def ph Let_def two_PI r(1) by simp
  then show ?thesis using r(2) by blast
qed

lemma clampYawPitch_yaw_360_infinite:
  "fst (clampYawPitch PInf ptc (projHFov ''vr360'') pv cv ch) = NaN"
  "fst (clampYawPitch NInf ptc (projHFov ''vr360'') pv cv ch) = NaN"
  unfolding clampYawPitch_def Let_def two_PI by (simp_all add: projHFov_def)

text \<open>
  C4, as stated, fails: the clamps do not coerce \<open>NaN\<close>. With the renderer's settings,
  under the 360 degree projection and a 1280 by 720 canvas, \<open>clampFov\<close> returns \<open>NaN\<close>
  for the input \<open>NaN\<close>, which is neither finite nor within the valid range, and
  \<open>clampYawPitch\<close> returns \<open>NaN\<close> for both angles.
\<close>

theorem clamps_propagate_NaN:
  "clampFov NaN VR_VFOV_MIN_DEG VR_VFOV_MAX_DEG (projVFov ''vr360'') (projHFov ''vr360'')
     (currentAspect 1280 720) = NaN
   \<and> clampYawPitch NaN NaN (projHFov ''vr360'') (projVFov ''vr360'') (Num 100) (Num 130) = (NaN, NaN)"
  by (simp add: clampFov_def clampYawPitch_def projHFov_def projVFov_def Let_def)

text \<open>
  C4, amended. The clamps return \<open>NaN\<close> in two cases: a \<open>NaN\<close> input is returned as \<open>NaN\<close>
  by \<open>clampFov\<close> and, for the angle concerned, by \<open>clampYawPitch\<close>, whatever the other
  arguments are; and an infinite yw under the 360 degree projection becomes \<open>NaN\<close>,
  because the yw is wrapped with the remainder operator there. Every other input is
  coerced to a finite value within the valid range. For every field of view other than
  \<open>NaN\<close>, infinite ones included, \<open>clampFov\<close> with the renderer's settings under a
  spherical projection returns a value between 20 and 179 degrees. For every ptc other
  than \<open>NaN\<close>, infinite ones included, and a current vertical field of view between 0
  and 180 degrees, \<open>clampYawPitch\<close> returns a ptc of absolute value at most the ptc
  limit, which is a finite number. For every yw other than \<open>NaN\<close>, infinite ones
  included, under the 180 degree projection with a current horizontal field of view
  between 0 and 180 degrees, it returns a yw of absolute value at most the yw limit.
  For every finite yw under the 360 degree projection it returns a yw of absolute
  value below \<open>2 * Math.PI\<close>.
\<close>

theorem clamps_finite_or_NaN:
  "clampFov NaN mn mx pv ph a = NaN
   \<and> fst (clampYawPitch NaN pt0 ph pv cv0 ch0) = NaN
   \<and> snd (clampYawPitch y0 NaN ph pv cv0 ch0) = NaN
   \<and> fst (clampYawPitch PInf pt0 (projHFov ''vr360'') pv cv0 ch0) = NaN
   \<and> fst (clampYawPitch NInf pt0 (projHFov ''vr360'') pv cv0 ch0) = NaN
   \<and> (vFov \<noteq> NaN \<and> isVrProjection p \<longrightarrow>
        (\<exists>r. clampFov vFov VR_VFOV_MIN_DEG VR_VFOV_MAX_DEG (projVFov p) (projHFov p)
                (currentAspect cw ch) = Num r \<and> 20 \<le> r \<and> r \<le> 179))
   \<and> (ptc \<noteq> NaN \<and> isVrProjection p \<and> 0 \<le> cv \<and> cv \<le> 180 \<longrightarrow>
        (\<exists>l p'. js_mul (js_div (js_sub (projVFov p) (Num cv)) (Num 2))
                   (js_div (Num Math_PI) (Num 180)) = Num l
           \<and> snd (clampYawPitch y0 ptc (projHFov p) (projVFov p) (Num cv) ch0) = Num p'
           \<and> \<bar>p'\<bar> \<le> l))
   \<and> (yw \<noteq> NaN \<and> 0 \<le> chf \<and> chf \<le> 180 \<longrightarrow>
        (\<exists>l y'. js_mul (js_div (js_sub (projHFov ''vr180'') (Num chf)) (Num 2))
                   (js_div (Num Math_PI) (Num 180)) = Num l
           \<and> fst (clampYawPitch yw pt0 (projHFov ''vr180'') pv cv0 (Num chf)) = Num y'
           \<and> \<bar>y'\<bar> \<le> l))
   \<and> (\<exists>y'. fst (clampYawPitch (Num y) pt0 (projHFov ''vr360'') pv cv0 ch0) = Num y'
         \<and> \<bar>y'\<bar> < 2 * Math_PI)"
proof (intro conjI impI)
  show "clampFov NaN mn mx pv ph a = NaN"
    by (simp add: clampFov_def Let_def)
  show "fst (clampYawPitch NaN pt0 ph pv cv0 ch0) = NaN"
    by (simp add: clampYawPitch_def Let_def)
  show "snd (clampYawPitch y0 NaN ph pv cv0 ch0) = NaN"
    by (simp add: clampYawPitch_def Let_def)
  show "fst (clampYawPitch PInf pt0 (projHFov ''vr360'') pv cv0 ch0) = NaN"
    by (rule clampYawPitch_yaw_360_infinite)
  show "fst (clampYawPitch NInf pt0 (projHFov ''vr360'') pv cv0 ch0) = NaN"
    by (rule clampYawPitch_yaw_360_infinite)
  show "\<exists>y'. fst (clampYawPitch (Num y) pt0 (projHFov ''vr360'') pv cv0 ch0) = Num y'
         \<and> \<bar>y'\<bar> < 2 * Math_PI"
    by (rule clampYawPitch_yaw_360)
next
  assume "vFov \<noteq> NaN \<and> isVrProjection p"
  then show "\<exists>r. clampFov vFov VR_VFOV_MIN_DEG VR_VFOV_MAX_DEG (projVFov p) (projHFov p)
                (currentAspect cw ch) = Num r \<and> 20 \<le> r \<and> r \<le> 179"
    using clampFov_vr [of vFov "currentAspect cw ch" p] currentAspect_not_NaN by simp
next
  assume "ptc \<noteq> NaN \<and> isVrProjection p \<and> 0 \<le> cv \<and> cv \<le> 180"
  then show "\<exists>l p'. js_mul (js_div (js_sub (projVFov p) (Num cv)) (Num 2))
                   (js_div (Num Math_PI) (Num 180)) = Num l
           \<and> snd (clampYawPitch y0 ptc (projHFov p) (projVFov p) (Num cv) ch0) = Num p'
           \<and> \<bar>p'\<bar> \<le> l"
    using clampYawPitch_pitch [of ptc p cv y0 ch0] by simp
next
  assume "yw \<noteq> NaN \<and> 0 \<le> chf \<and> chf \<le> 180"
  then show "\<exists>l y'. js_mul (js_div (js_sub (projHFov ''vr180'') (Num chf)) (Num 2))
                   (js_div (Num Math_PI) (Num 180)) = Num l
           \<and> fst (clampYawPitch yw pt0 (projHFov ''vr180'') pv cv0 (Num chf)) = Num y'
           \<and> \<bar>y'\<bar> \<le> l"
    using clampYawPitch_yaw_180 [of yw chf pt0 pv cv0] by simp
qed


theorem clamps_finite_or_NaN_witness:
  "NInf \<noteq> NaN \<and> PInf \<noteq> NaN \<and> isVrProjection ''vr180''
   \<and> (0::real) \<le> 100 \<and> (100::real) \<le> 180 \<and> (0::real) \<le> 130 \<and> (130::real) \<le> 180
   \<and> (\<exists>r. clampFov PInf VR_VFOV_MIN_DEG VR_VFOV_MAX_DEG (projVFov ''vr180'') (projHFov ''vr180'')
              (currentAspect 1280 720) = Num r \<and> 20 \<le> r \<and> r \<le> 179)
   \<and> (\<exists>l p'. js_mul (js_div (js_sub (projVFov ''vr180'') (Num 100)) (Num 2))
                  (js_div (Num Math_PI) (Num 180)) = Num l
         \<and> snd (clampYawPitch (Num 3) PInf (projHFov ''vr180'') (projVFov ''vr180'')
                  (Num 100) (Num 130)) = Num p'
         \<and> \<bar>p'\<bar> \<le> l)
   \<and> (\<exists>l y'. js_mul (js_div (js_sub (projHFov ''vr180'') (Num 130)) (Num 2))
                  (js_div (Num Math_PI) (Num 180)) = Num l
         \<and> fst (clampYawPitch NInf (Num (- 2)) (projHFov ''vr180'') (projVFov ''vr180'')
                  (Num 100) (Num 130)) = Num y'
         \<and> \<bar>y'\<bar> \<le> l)"
proof -
  have h: "isVrProjection ''vr180''" by (simp add: isVrProjection_def)
  from clamps_finite_or_NaN [where vFov = PInf and p = "''vr180''" and cw = 1280 and ch = 720
      and ptc = PInf and cv = 100 and ?y0.0 = "Num 3" and ?ch0.0 = "Num 130"
      and yw = NInf and chf = 130 and ?pt0.0 = "Num (- 2)" and pv = "projVFov ''vr180''"
      and ?cv0.0 = "Num 100"] h
  show ?thesis by simp
qed

section \<open>Materials: properties\<close>

lemma intendedType_five: "intendedType s \<in> set material_types"
  by (simp add: intendedType_def material_types_def)

lemma updateMaterial_same:
  assumes "currentType r = Some (intendedType s)"
  shows "next_id (updateMaterial r s) = next_id r"
    and "disposed (updateMaterial r s) = disposed r"
    and "bound_id (updateMaterial r s) = bound_id r"
    and "currentType (updateMaterial r s) = Some (intendedType s)"
  using assms
  by (auto simp: updateMaterial_def currentType_def bound_id_def updateMaterialUniforms_def Let_def
           split: option.splits)

lemma updateMaterial_diff:
  assumes "mesh r \<noteq> None" "currentType r \<noteq> Some (intendedType s)"
  shows "next_id (updateMaterial r s) = Suc (next_id r)"
    and "bound_id (updateMaterial r s) = Some (next_id r)"
    and "currentType (updateMaterial r s) = Some (intendedType s)"
  using assms
  by (auto simp: updateMaterial_def currentType_def bound_id_def updateMaterialUniforms_def Let_def
         createMaterialFor_def createAnaglyphVrMaterial_def createEquirectMaterial_def
         createAnaglyphFlatMaterial_def createWatchFlatMaterial_def createMeshBasicMaterial_def
           split: option.splits)

lemma updateMaterial_mesh: "mesh r \<noteq> None \<Longrightarrow> mesh (updateMaterial r s) \<noteq> None"
  by (auto simp: updateMaterial_def Let_def split: option.splits)

lemma updateMaterials_count:
  "mesh r \<noteq> None \<Longrightarrow> next_id (updateMaterials r ss) = next_id r + type_changes (currentType r) ss"
proof (induction ss arbitrary: r)
  case Nil
  then show ?case by simp
next
  case (Cons s ss)
  have m: "mesh (updateMaterial r s) \<noteq> None" using Cons.prems by (rule updateMaterial_mesh)
  have t: "currentType (updateMaterial r s) = Some (intendedType s)"
    using Cons.prems updateMaterial_same(4) updateMaterial_diff(3) by blast
  show ?case
  proof (cases "currentType r = Some (intendedType s)")
    case True
    then show ?thesis using Cons.IH [OF m] t updateMaterial_same(1) [OF True] by simp
  next
    case False
    then show ?thesis using Cons.IH [OF m] t updateMaterial_diff(1) [OF Cons.prems False] by simp
  qed
qed

text \<open>
  C8. The material caching invariant. The resolved type tag is one of five. With a mesh
  in place, a call of \<open>updateMaterial\<close> constructs a material (the allocation counter
  advances) exactly when the resolved tag differs from the tag bound before the call;
  when the tags agree the bound material object stays the same object and nothing is
  disposed, only its parameters are updated; when they differ the bound material is the
  freshly constructed one. After the call the bound tag is the resolved tag, and along
  any sequence of calls the number of materials constructed is the number of states
  whose resolved tag differs from the tag bound before them.
\<close>

theorem material_rebuilt_iff_type_changes:
  assumes "mesh r \<noteq> None"
  shows "intendedType s \<in> set material_types
       \<and> (next_id (updateMaterial r s) \<noteq> next_id r \<longleftrightarrow> currentType r \<noteq> Some (intendedType s))
       \<and> (currentType r = Some (intendedType s) \<longrightarrow>
            bound_id (updateMaterial r s) = bound_id r \<and> disposed (updateMaterial r s) = disposed r)
       \<and> (currentType r \<noteq> Some (intendedType s) \<longrightarrow>
            bound_id (updateMaterial r s) = Some (next_id r))
       \<and> currentType (updateMaterial r s) = Some (intendedType s)
       \<and> next_id (updateMaterials r ss) = next_id r + type_changes (currentType r) ss"
proof (intro conjI impI)
  show "intendedType s \<in> set material_types" by (rule intendedType_five)
  show "(next_id (updateMaterial r s) \<noteq> next_id r) = (currentType r \<noteq> Some (intendedType s))"
  proof (cases "currentType r = Some (intendedType s)")
    case True
    then show ?thesis using updateMaterial_same(1) [OF True] by simp
  next
    case False
    then show ?thesis using updateMaterial_diff(1) [OF assms False] by simp
  qed
  show "currentType (updateMaterial r s) = Some (intendedType s)"
    using assms updateMaterial_same(4) updateMaterial_diff(3) by blast
  show "next_id (updateMaterials r ss) = next_id r + type_changes (currentType r) ss"
    using assms by (rule updateMaterials_count)
next
  assume "currentType r = Some (intendedType s)"
  then show "bound_id (updateMaterial r s) = bound_id r" "disposed (updateMaterial r s) = disposed r"
    by (rule updateMaterial_same)+
next
  assume "currentType r \<noteq> Some (intendedType s)"
  with assms show "bound_id (updateMaterial r s) = Some (next_id r)"
    by (rule updateMaterial_diff)
qed

theorem material_rebuilt_iff_type_changes_witness:
  "mesh (initRender 1280 720) \<noteq> None
   \<and> currentType (initRender 1280 720) \<noteq> Some (intendedType (storeDefaults ''clip.mp4'' 3840 1080))
   \<and> bound_id (updateMaterial (initRender 1280 720) (storeDefaults ''clip.mp4'' 3840 1080)) = Some 1
   \<and> next_id (updateMaterials (initRender 1280 720)
        [storeDefaults ''clip.mp4'' 3840 1080,
         (storeDefaults ''clip.mp4'' 3840 1080)\<lparr>eye := ''right''\<rparr>,
         (storeDefaults ''clip.mp4'' 3840 1080)\<lparr>view := ''anaglyph''\<rparr>,
         (storeDefaults ''clip.mp4'' 3840 1080)\<lparr>view := ''anaglyph'', layout := ''ou''\<rparr>]) = 3"
proof -
  have m: "mesh (initRender 1280 720) \<noteq> None" by (simp add: initRender_def)
  have c: "currentType (initRender 1280 720) \<noteq> Some (intendedType (storeDefaults ''clip.mp4'' 3840 1080))"
    by (simp add: initRender_def currentType_def createMeshBasicMaterial_def)
  have n: "next_id (initRender 1280 720) = 1" by (simp add: initRender_def)
  have t: "type_changes (currentType (initRender 1280 720))
        [storeDefaults ''clip.mp4'' 3840 1080,
         (storeDefaults ''clip.mp4'' 3840 1080)\<lparr>eye := ''right''\<rparr>,
         (storeDefaults ''clip.mp4'' 3840 1080)\<lparr>view := ''anaglyph''\<rparr>,
         (storeDefaults ''clip.mp4'' 3840 1080)\<lparr>view := ''anaglyph'', layout := ''ou''\<rparr>] = 2"
    by (simp add: initRender_def currentType_def createMeshBasicMaterial_def intendedType_def
          storeDefaults_def isVrProjection_def)
  note T = material_rebuilt_iff_type_changes [OF m, of "storeDefaults ''clip.mp4'' 3840 1080"
        "[storeDefaults ''clip.mp4'' 3840 1080,
         (storeDefaults ''clip.mp4'' 3840 1080)\<lparr>eye := ''right''\<rparr>,
         (storeDefaults ''clip.mp4'' 3840 1080)\<lparr>view := ''anaglyph''\<rparr>,
         (storeDefaults ''clip.mp4'' 3840 1080)\<lparr>view := ''anaglyph'', layout := ''ou''\<rparr>]"]
  from T c have b: "bound_id (updateMaterial (initRender 1280 720) (storeDefaults ''clip.mp4'' 3840 1080))
      = Some (next_id (initRender 1280 720))"
    by blast
  from T have k: "next_id (updateMaterials (initRender 1280 720)
        [storeDefaults ''clip.mp4'' 3840 1080,
         (storeDefaults ''clip.mp4'' 3840 1080)\<lparr>eye := ''right''\<rparr>,
         (storeDefaults ''clip.mp4'' 3840 1080)\<lparr>view := ''anaglyph''\<rparr>,
         (storeDefaults ''clip.mp4'' 3840 1080)\<lparr>view := ''anaglyph'', layout := ''ou''\<rparr>])
      = next_id (initRender 1280 720) + type_changes (currentType (initRender 1280 720))
        [storeDefaults ''clip.mp4'' 3840 1080,
         (storeDefaults ''clip.mp4'' 3840 1080)\<lparr>eye := ''right''\<rparr>,
         (storeDefaults ''clip.mp4'' 3840 1080)\<lparr>view := ''anaglyph''\<rparr>,
         (storeDefaults ''clip.mp4'' 3840 1080)\<lparr>view := ''anaglyph'', layout := ''ou''\<rparr>]"
    by blast
  show ?thesis
    using m c b [unfolded n] k [unfolded n t] by (intro conjI) simp_all
qed

text \<open>
  C2. The calibration scalars do not reach the uniform set. The renderer, bound to the
  spherical anaglyph material, receives a state that differs from the previous one in
  the calibration values only (the resolved type is the bound one). After
  \<open>updateMaterial\<close> the material's uniform set holds no entry for any of \<open>uAntiRed\<close>,
  \<open>uAntiGreen\<close>, \<open>uAntiBlue\<close>, \<open>uGreenBalance\<close>, \<open>uConvergence\<close> and \<open>uDepth\<close>:
  \<open>_createAnaglyphVrMaterial\<close> does not declare them and \<open>_updateMaterialUniforms\<close>
  writes only the keys that are present.
\<close>

theorem calibration_uniforms_absent:
  "currentType (updateMaterial (initRender 1280 720)
        ((storeDefaults ''clip.mp4'' 3840 1080)\<lparr>projection := ''vr180'', view := ''anaglyph''\<rparr>))
     = Some (intendedType ((storeDefaults ''clip.mp4'' 3840 1080)
          \<lparr>projection := ''vr180'', view := ''anaglyph'', antiR := Num 0.7, antiG := Num 0.6,
            antiB := Num 0.4, balance := Num 0.5, convergence := Num 0.8, depthCompression := Num 0.3\<rparr>))
   \<and> map (uniform_of (updateMaterial (updateMaterial (initRender 1280 720)
        ((storeDefaults ''clip.mp4'' 3840 1080)\<lparr>projection := ''vr180'', view := ''anaglyph''\<rparr>))
        ((storeDefaults ''clip.mp4'' 3840 1080)
          \<lparr>projection := ''vr180'', view := ''anaglyph'', antiR := Num 0.7, antiG := Num 0.6,
            antiB := Num 0.4, balance := Num 0.5, convergence := Num 0.8, depthCompression := Num 0.3\<rparr>)))
       [''uAntiRed'', ''uAntiGreen'', ''uAntiBlue'', ''uGreenBalance'', ''uConvergence'', ''uDepth'']
     = [None, None, None, None, None, None]"
  by (simp add: updateMaterial_def initRender_def storeDefaults_def currentType_def intendedType_def
        isVrProjection_def createMaterialFor_def createAnaglyphVrMaterial_def
        createMeshBasicMaterial_def updateMaterialUniforms_def uniform_of_def Let_def
        edgeFeatherForProjection_def hFovRad_def)

section \<open>Camera interaction: properties\<close>

text \<open>
  C10. While the orthographic camera is current (the flat projection), the pointer-down,
  pointer-move and wheel handlers return at once: the renderer is unchanged, in
  particular its yaw, its pitch and the perspective camera's field of view, and
  \<open>preventDefault\<close> is not called.
\<close>

theorem flat_handlers_leave_camera:
  assumes "camera r = OrthographicCamera"
  shows "onPointerDown r e = (r, False) \<and> onPointerMove r e = (r, False) \<and> onWheel r w = (r, False)"
  using assms by (simp add: onPointerDown_def onPointerMove_def onWheel_def)

theorem flat_handlers_leave_camera_witness:
  "camera (applyProjectionAndViewGeometry (initRender 1280 720) ''flat'') = OrthographicCamera
   \<and> onPointerDown (applyProjectionAndViewGeometry (initRender 1280 720) ''flat'')
        \<lparr>clientX = Num 10, clientY = Num 20\<rparr>
       = (applyProjectionAndViewGeometry (initRender 1280 720) ''flat'', False)
   \<and> onPointerMove (applyProjectionAndViewGeometry (initRender 1280 720) ''flat'')
        \<lparr>clientX = Num 10, clientY = Num 20\<rparr>
       = (applyProjectionAndViewGeometry (initRender 1280 720) ''flat'', False)
   \<and> onWheel (applyProjectionAndViewGeometry (initRender 1280 720) ''flat'') \<lparr>deltaY = Num 120\<rparr>
       = (applyProjectionAndViewGeometry (initRender 1280 720) ''flat'', False)"
proof -
  have c: "camera (applyProjectionAndViewGeometry (initRender 1280 720) ''flat'') = OrthographicCamera"
    by (simp add: applyProjectionAndViewGeometry_def isVrProjection_def)
  from flat_handlers_leave_camera [OF c] c show ?thesis by blast
qed

section \<open>The EBML variable-length integer: properties\<close>

lemma scan_test: "((ucast (b :: 8 word) :: 32 word) AND 2 ^ k = 0) \<longleftrightarrow> \<not> (k < 8 \<and> bit b k)"
  by (auto simp add: and_exp_eq_0_iff_not_bit bit_ucast_iff dest: bit_imp_le_length)

lemma marker_masks:
  "signed_drop_bit 1 (0x80 :: 32 word) = 0x40"
  "signed_drop_bit 1 (0x40 :: 32 word) = 0x20"
  "signed_drop_bit 1 (0x20 :: 32 word) = 0x10"
  "signed_drop_bit 1 (0x10 :: 32 word) = 0x08"
  "signed_drop_bit 1 (0x08 :: 32 word) = 0x04"
  "signed_drop_bit 1 (0x04 :: 32 word) = 0x02"
  "signed_drop_bit 1 (0x02 :: 32 word) = 0x01"
  "signed_drop_bit 1 (0x01 :: 32 word) = 0x00"
  by simp_all

lemma marker_tests:
  "((ucast (b :: 8 word) :: 32 word) AND 0x80 = 0) \<longleftrightarrow> \<not> bit b 7"
  "((ucast (b :: 8 word) :: 32 word) AND 0x40 = 0) \<longleftrightarrow> \<not> bit b 6"
  "((ucast (b :: 8 word) :: 32 word) AND 0x20 = 0) \<longleftrightarrow> \<not> bit b 5"
  "((ucast (b :: 8 word) :: 32 word) AND 0x10 = 0) \<longleftrightarrow> \<not> bit b 4"
  "((ucast (b :: 8 word) :: 32 word) AND 0x08 = 0) \<longleftrightarrow> \<not> bit b 3"
  "((ucast (b :: 8 word) :: 32 word) AND 0x04 = 0) \<longleftrightarrow> \<not> bit b 2"
  "((ucast (b :: 8 word) :: 32 word) AND 0x02 = 0) \<longleftrightarrow> \<not> bit b 1"
  "((ucast (b :: 8 word) :: 32 word) AND 0x01 = 0) \<longleftrightarrow> \<not> bit b 0"
  using scan_test [of b 7] scan_test [of b 6] scan_test [of b 5] scan_test [of b 4]
        scan_test [of b 3] scan_test [of b 2] scan_test [of b 1] scan_test [of b 0]
  by simp_all

lemma vint_scan_byte:
  "vint_scan (ucast (b :: 8 word)) 0x80 1 =
     (if bit b 7 then (0x80, 1) else if bit b 6 then (0x40, 2) else if bit b 5 then (0x20, 3)
      else if bit b 4 then (0x10, 4) else if bit b 3 then (0x08, 5) else if bit b 2 then (0x04, 6)
      else if bit b 1 then (0x02, 7) else if bit b 0 then (0x01, 8) else (0, 9))"
proof -
  have s9: "vint_scan f m 9 = (m, 9)" for f m
    by (subst vint_scan.simps) simp
  have s8: "vint_scan (ucast b) 0x01 8 = (if bit b 0 then (0x01, 8) else (0, 9))"
    by (subst vint_scan.simps) (simp add: marker_tests s9)
  have s7: "vint_scan (ucast b) 0x02 7 = (if bit b 1 then (0x02, 7) else vint_scan (ucast b) 0x01 8)"
    by (subst vint_scan.simps) (simp add: marker_tests)
  have s6: "vint_scan (ucast b) 0x04 6 = (if bit b 2 then (0x04, 6) else vint_scan (ucast b) 0x02 7)"
    by (subst vint_scan.simps) (simp add: marker_tests)
  have s5: "vint_scan (ucast b) 0x08 5 = (if bit b 3 then (0x08, 5) else vint_scan (ucast b) 0x04 6)"
    by (subst vint_scan.simps) (simp add: marker_tests)
  have s4: "vint_scan (ucast b) 0x10 4 = (if bit b 4 then (0x10, 4) else vint_scan (ucast b) 0x08 5)"
    by (subst vint_scan.simps) (simp add: marker_tests)
  have s3: "vint_scan (ucast b) 0x20 3 = (if bit b 5 then (0x20, 3) else vint_scan (ucast b) 0x10 4)"
    by (subst vint_scan.simps) (simp add: marker_tests)
  have s2: "vint_scan (ucast b) 0x40 2 = (if bit b 6 then (0x40, 2) else vint_scan (ucast b) 0x20 3)"
    by (subst vint_scan.simps) (simp add: marker_tests)
  have s1: "vint_scan (ucast b) 0x80 1 = (if bit b 7 then (0x80, 1) else vint_scan (ucast b) 0x40 2)"
    by (subst vint_scan.simps) (simp add: marker_tests marker_masks del: One_nat_def)
  show ?thesis
    by (simp only: s1 s2 s3 s4 s5 s6 s7 s8)
qed


lemma upt_1_9: "[1 ..< 9] = [1, 2, 3, 4, 5, 6, 7, 8 :: nat]"
  by (simp add: upt_rec numeral_eq_Suc)

lemma vint_width_cases:
  "vint_width b =
     (if bit b 7 then 1 else if bit b 6 then 2 else if bit b 5 then 3
      else if bit b 4 then 4 else if bit b 3 then 5 else if bit b 2 then 6
      else if bit b 1 then 7 else if bit b 0 then 8 else 9)"
  unfolding vint_width_def upt_1_9 by simp

lemma vint_scan_width: "snd (vint_scan (ucast b) 0x80 1) = vint_width b"
  unfolding vint_scan_byte vint_width_cases by simp

lemma vint_scan_mask:
  "vint_width b \<le> 8 \<Longrightarrow> fst (vint_scan (ucast b) 0x80 1) = 2 ^ (8 - vint_width b)"
  unfolding vint_scan_byte vint_width_cases by (simp split: if_splits)

lemma vint_width_marker:
  "vint_width b \<le> 8 \<Longrightarrow> bit b (8 - vint_width b)"
  by (simp add: vint_width_cases split: if_splits)

lemma vint_width_pos: "1 \<le> vint_width b"
  by (simp add: vint_width_cases)

lemma byte_zero_iff: "(b :: 8 word) = 0 \<longleftrightarrow> \<not> bit b 7 \<and> \<not> bit b 6 \<and> \<not> bit b 5 \<and> \<not> bit b 4
    \<and> \<not> bit b 3 \<and> \<not> bit b 2 \<and> \<not> bit b 1 \<and> \<not> bit b 0"
proof
  assume "b = 0" then show "\<not> bit b 7 \<and> \<not> bit b 6 \<and> \<not> bit b 5 \<and> \<not> bit b 4
    \<and> \<not> bit b 3 \<and> \<not> bit b 2 \<and> \<not> bit b 1 \<and> \<not> bit b 0" by simp
next
  assume a: "\<not> bit b 7 \<and> \<not> bit b 6 \<and> \<not> bit b 5 \<and> \<not> bit b 4
    \<and> \<not> bit b 3 \<and> \<not> bit b 2 \<and> \<not> bit b 1 \<and> \<not> bit b 0"
  show "b = 0"
  proof (rule bit_eqI)
    fix n
    assume "possible_bit TYPE(8 word) n"
    then have "n < 8" by (simp add: possible_bit_def)
    then have "n \<in> {0, 1, 2, 3, 4, 5, 6, 7}" by auto
    then show "bit b n = bit (0 :: 8 word) n" using a by auto
  qed
qed

lemma vint_width_9_iff: "vint_width b > 8 \<longleftrightarrow> b = 0"
  by (simp add: vint_width_cases byte_zero_iff)

text \<open>
  \<open>readVint\<close> returns \<open>null\<close> exactly when the position is outside the buffer, the
  leading byte is zero, or the integer would end beyond the buffer.
\<close>

lemma readVint_None_iff:
  "readVint dv pos forId = None \<longleftrightarrow>
     pos \<ge> length dv \<or> dv ! pos = 0 \<or> pos + vint_width (dv ! pos) > length dv"
  using vint_scan_width [of "dv ! pos"] vint_width_9_iff [of "dv ! pos"]
  by (auto simp: readVint_def Let_def split: prod.splits)

lemma unat_ucast_byte: "unat (ucast (b :: 8 word) :: 32 word) = unat b"
proof -
  have "unat b < 2 ^ 8" using unsigned_less [of b] by simp
  then have "unat b < 2 ^ 32" by simp
  then show ?thesis by (simp add: unsigned_ucast_eq take_bit_nat_eq_self)
qed

lemma unat_byte_less: "unat (b :: 8 word) < 256"
  using unsigned_less [of b] by simp

lemma or_step:
  fixes v :: "32 word" and b :: "8 word"
  assumes "unat v < 2 ^ 24"
  shows "unat (push_bit 8 v OR ucast b) = unat v * 256 + unat b"
proof -
  have "push_bit 8 v + ucast b = push_bit 8 v OR (ucast b :: 32 word)"
    by (rule disjunctive_add) (auto simp: bit_push_bit_iff bit_ucast_iff dest: bit_imp_le_length)
  then have e: "unat (push_bit 8 v OR ucast b) = unat (push_bit 8 v + (ucast b :: 32 word))"
    by simp
  have "unat v * unat (256 :: 32 word) < 2 ^ LENGTH(32)" using assms by simp
  then have "unat (v * 256) = unat v * unat (256 :: 32 word)" by (simp only: unat_mult_lem)
  then have p: "unat (push_bit 8 v) = unat v * 256" by (simp add: push_bit_eq_mult)
  have "unat (push_bit 8 v) + unat (ucast b :: 32 word) < 2 ^ LENGTH(32)"
    using assms unat_byte_less [of b] by (simp add: p unat_ucast_byte)
  then have "unat (push_bit 8 v + (ucast b :: 32 word)) = unat (push_bit 8 v) + unat (ucast b :: 32 word)"
    by (simp only: unat_add_lem)
  then show ?thesis by (simp add: e p unat_ucast_byte)
qed

lemma sint_small:
  fixes w :: "32 word"
  assumes "unat w < 2 ^ 31"
  shows "sint w = int (unat w)"
proof -
  have u: "uint w = int (unat w)" by (rule uint_nat)
  have "int (unat w) < int (2 ^ 31)" using assms by (simp only: of_nat_less_iff)
  then have lt: "int (unat w) < 2 ^ 31" by simp
  have ge: "- (2 ^ 31) \<le> int (unat w)"
    by (rule order_trans [of _ 0]) simp_all
  have "signed_take_bit 31 (int (unat w)) = int (unat w)"
    using ge lt by (rule signed_take_bit_int_eq_self)
  moreover have "sint w = signed_take_bit 31 (uint w)"
    by (simp add: sint_uint)
  ultimately show ?thesis by (simp only: u)
qed

lemma bit_imp_ge: "bit (b :: 8 word) k \<Longrightarrow> 2 ^ k \<le> unat b"
proof -
  assume "bit b k"
  then have "bit (unat b) k" by (simp add: bit_unsigned_iff)
  then show ?thesis by (simp add: bit_iff_odd) (metis div_less even_zero not_le)
qed

lemma lead_masked:
  fixes b :: "8 word"
  assumes "bit b k"
  shows "unat ((ucast b :: 32 word) AND NOT (2 ^ k)) = unat b - 2 ^ k"
proof -
  have k: "k < 8" using assms by (auto dest: bit_imp_le_length)
  have bk: "bit (ucast b :: 32 word) k" using assms k by (simp add: bit_ucast_iff)
  have "(ucast b :: 32 word) AND NOT (2 ^ k) = unset_bit k (ucast b)"
    by (simp add: unset_bit_eq_and_not)
  also have "\<dots> = ucast b - 2 ^ k" using bk by (simp add: unset_bit_eq)
  finally have e: "(ucast b :: 32 word) AND NOT (2 ^ k) = ucast b - 2 ^ k" .
  have "k \<in> {0, 1, 2, 3, 4, 5, 6, 7}" using k by auto
  then have u: "unat (2 ^ k :: 32 word) = 2 ^ k" by auto
  have "(2 ^ k :: 32 word) \<le> ucast b"
    using bit_imp_ge [OF assms] by (simp add: word_le_nat_alt u unat_ucast_byte)
  then have "unat ((ucast b :: 32 word) - 2 ^ k) = unat (ucast b :: 32 word) - unat (2 ^ k :: 32 word)"
    by (rule unat_sub)
  then show ?thesis by (simp add: e u unat_ucast_byte)
qed

lemma fold_be:
  fixes v0 :: "32 word" and bs :: "8 word list"
  assumes "unat v0 < m" "m * 256 ^ length bs \<le> 2 ^ 31"
  shows "unat (foldl (\<lambda>v b. push_bit 8 v OR ucast b) v0 bs)
           = foldl (\<lambda>a b. a * 256 + b) (unat v0) (map unat bs)
       \<and> unat (foldl (\<lambda>v b. push_bit 8 v OR ucast b) v0 bs) < m * 256 ^ length bs"
  using assms
proof (induction bs arbitrary: v0 m)
  case Nil
  then show ?case by simp
next
  case (Cons b bs)
  have "m * 256 \<le> m * 256 ^ length (b # bs)" by simp
  then have m: "m * 256 \<le> 2 ^ 31" using Cons.prems(2) by linarith
  then have "unat v0 < 2 ^ 24" using Cons.prems(1) by simp
  then have s: "unat (push_bit 8 v0 OR ucast b) = unat v0 * 256 + unat b" by (rule or_step)
  have lt: "unat (push_bit 8 v0 OR ucast b) < m * 256"
    using Cons.prems(1) unat_byte_less [of b] unfolding s by simp
  have le: "(m * 256) * 256 ^ length bs \<le> 2 ^ 31" using Cons.prems(2) by (simp add: mult.assoc)
  from Cons.IH [OF lt le] show ?case by (simp add: s mult.assoc)
qed

lemma index_fold:
  "foldl (\<lambda>v i. f v (dv ! (pos + i))) v0 [1 ..< w] = foldl f v0 (map (\<lambda>i. dv ! (pos + i)) [1 ..< w])"
  by (simp add: foldl_map)

lemma continuation_bytes:
  assumes "pos + w \<le> length dv" "1 \<le> w"
  shows "map (\<lambda>i. dv ! (pos + i)) [1 ..< w] = take (w - 1) (drop (pos + 1) dv)"
  using assms by (intro nth_equalityI) (auto simp: min_def)

lemma take_bit_byte:
  fixes b :: "8 word"
  assumes "\<forall>j. k \<le> j \<longrightarrow> \<not> bit b j"
  shows "unat b < 2 ^ k"
proof -
  have "take_bit k b = b"
    using assms by (intro bit_eqI) (auto simp: bit_take_bit_iff not_le)
  then have "take_bit k (unat b) = unat b"
    by (metis unsigned_take_bit_eq)
  then show ?thesis by (simp add: take_bit_nat_eq_self_iff)
qed

lemma lead_bound:
  assumes "vint_width b \<le> 8"
  shows "unat b < 2 ^ (9 - vint_width b)"
proof (rule take_bit_byte, intro allI impI)
  fix j assume j: "9 - vint_width b \<le> j"
  show "\<not> bit b j"
  proof (cases "j < 8")
    case False
    then show ?thesis by (auto dest: bit_imp_le_length)
  next
    case True
    then have "j \<in> {0, 1, 2, 3, 4, 5, 6, 7}" by auto
    then show ?thesis using j assms
      by (auto simp: vint_width_cases split: if_splits)
  qed
qed

text \<open>
  Up to a width of four bytes \<open>readVint\<close> agrees with the reading of the specification:
  the value stays below \<open>2 ^ 29\<close>, within the signed 32-bit range.
\<close>

lemma readVint_exact_small:
  assumes "vint_width (dv ! pos) \<le> 4"
  shows "readVint dv pos forId = vint_spec dv pos forId"
proof (cases "pos \<ge> length dv \<or> pos + vint_width (dv ! pos) > length dv")
  case True
  then have "readVint dv pos forId = None" by (auto simp: readVint_None_iff)
  moreover have "vint_spec dv pos forId = None" using True by (auto simp: vint_spec_def Let_def)
  ultimately show ?thesis by simp
next
  case False
  let ?b = "dv ! pos"
  let ?w = "vint_width ?b"
  let ?step = "\<lambda>(v :: 32 word) (b :: 8 word). push_bit 8 v OR ucast b"
  let ?v0 = "if forId then (ucast ?b :: 32 word) else ucast ?b AND NOT (2 ^ (8 - ?w))"
  let ?lead = "if forId then unat ?b else unat ?b - 2 ^ (8 - ?w)"
  let ?bs = "take (?w - 1) (drop (pos + 1) dv)"
  from False have len: "pos < length dv" "pos + ?w \<le> length dv" by simp_all
  have w8: "?w \<le> 8" using assms by simp
  have w1: "1 \<le> ?w" by (rule vint_width_pos)
  obtain msk width where sc: "vint_scan (ucast ?b) 0x80 1 = (msk, width)"
    by (cases "vint_scan (ucast ?b) 0x80 1")
  have width: "width = ?w" using vint_scan_width [of ?b] sc by simp
  have msk: "msk = 2 ^ (8 - ?w)" using vint_scan_mask [OF w8] sc by simp
  have rv: "readVint dv pos forId = Some (sint (foldl ?step ?v0 (map (\<lambda>i. dv ! (pos + i)) [1 ..< ?w])), ?w)"
    unfolding readVint_def Let_def sc prod.case width msk
    using len w8 by (simp add: foldl_map)
  have v0: "unat ?v0 = ?lead"
    using lead_masked [OF vint_width_marker [OF w8]] by (simp add: unat_ucast_byte)
  have "?lead \<le> unat ?b" by simp
  then have v0m: "unat ?v0 < 2 ^ (9 - ?w)" using lead_bound [OF w8] v0 by linarith
  have lbs: "length ?bs = ?w - 1" using len by simp
  have "(256::nat) = 2 ^ 8" by simp
  then have "(256::nat) ^ (?w - 1) = 2 ^ (8 * (?w - 1))"
    by (simp only: power_mult)
  then have "(2::nat) ^ (9 - ?w) * 256 ^ (?w - 1) = 2 ^ (9 - ?w) * 2 ^ (8 * (?w - 1))"
    by (simp only:)
  also have "\<dots> = 2 ^ (9 - ?w + 8 * (?w - 1))" by (simp add: power_add)
  also have "\<dots> \<le> 2 ^ 31" using assms w1 by (intro power_increasing) auto
  finally have bound: "(2::nat) ^ (9 - ?w) * 256 ^ length ?bs \<le> 2 ^ 31" by (simp only: lbs)
  note F = fold_be [OF v0m bound]
  have lt: "unat (foldl ?step ?v0 ?bs) < 2 ^ 31" using F bound by linarith
  have "sint (foldl ?step ?v0 ?bs) = int (unat (foldl ?step ?v0 ?bs))"
    using lt by (rule sint_small)
  also have "\<dots> = int (foldl (\<lambda>a b. a * 256 + b) ?lead (map unat ?bs))"
    using F v0 by simp
  also have "\<dots> = int (big_endian (?lead # map unat ?bs))"
    by (simp add: big_endian_def)
  finally have val: "sint (foldl ?step ?v0 ?bs) = int (big_endian (?lead # map unat ?bs))" .
  have sp: "vint_spec dv pos forId = Some (int (big_endian (?lead # map unat ?bs)), ?w)"
    using len w8 by (simp add: vint_spec_def Let_def)
  show ?thesis
    unfolding rv sp continuation_bytes [OF len(2) w1] val ..
qed

text \<open>
  C6. The continuation bytes are not combined big-endian once the integer is wider than
  four bytes. For the five-byte size \<open>08 80 00 00 00\<close> the marker bit is the fifth bit,
  the width is 5 and the marker is masked out, so the value in the reading of the
  specification is 2147483648; \<open>readVint\<close> returns -2147483648, because
  \<open>(value << 8) | byte\<close> is computed on signed 32-bit integers.
\<close>

theorem readVint_wraps_32bit:
  "readVint [0x08, 0x80, 0x00, 0x00, 0x00] 0 False = Some (- 2147483648, 5)
   \<and> vint_spec [0x08, 0x80, 0x00, 0x00, 0x00] 0 False = Some (2147483648, 5)"
proof
  show "readVint [0x08, 0x80, 0x00, 0x00, 0x00] 0 False = Some (- 2147483648, 5)"
    by code_simp
  have w: "vint_width (0x08 :: 8 word) = 5"
    unfolding vint_width_cases by simp
  show "vint_spec [0x08, 0x80, 0x00, 0x00, 0x00] 0 False = Some (2147483648, 5)"
    by (simp add: vint_spec_def w big_endian_def)
qed

section \<open>Layout detection: properties\<close>












section \<open>XMP classification: properties\<close>

























section \<open>The anaglyph shader: properties\<close>

lemma sRGBToLinear1_one: "sRGBToLinear1 1 = 1"
  by (simp add: sRGBToLinear1_def glsl_mix_def glsl_step_def)

lemma linearToSRGB1_one: "linearToSRGB1 1 = 1"
  by (simp add: linearToSRGB1_def glsl_mix_def glsl_step_def glsl_clamp_def)

lemma dubois_linear_white:
  "clamp3 (vec3_add (mat3_mul M_left (1, 1, 1)) (mat3_mul M_right (1, 1, 1))) 0 1 = (1, 1, 1)"
  by (simp add: clamp3_def vec3_add_def mat3_mul_def M_left_def M_right_def glsl_clamp_def)

lemma dubois_white: "dubois_color (1, 1, 1) (1, 1, 1) = (1, 1, 1)"
  unfolding dubois_color_def Let_def sRGBToLinear_def linearToSRGB_def
  by (simp only: prod.case sRGBToLinear1_one dubois_linear_white linearToSRGB1_one)

lemma glsl_clamp_idem: "glsl_clamp (glsl_clamp x 0 1) 0 1 = glsl_clamp x 0 1"
  by (simp add: glsl_clamp_def)

lemma glsl_clamp_unit: "glsl_clamp 0 0 1 = 0" "glsl_clamp (1 / 2) 0 1 = 1 / 2" "glsl_clamp 1 0 1 = 1"
  by (simp_all add: glsl_clamp_def)

lemma anaglyph_color_at_rest:
  assumes "uAntiRed u = 0" "uAntiGreen u = 0" "uAntiBlue u = 0" "uGreenBalance u = 0.5"
  shows "anaglyph_color u (lr, lg, lb) (rr, rg, rb)
           = (glsl_clamp (lr + 0.25 * lg) 0 1, glsl_clamp (0.75 * rg) 0 1, glsl_clamp rb 0 1)"
proof -
  have g: "uGreenBalance u = 1 / 2" using assms(4) by simp
  have m: "max (0.01::real) 1 = 1" by simp
  have r: "lr + lg * (1 / 2 * 0.5) = lr + 0.25 * lg" "rg * (1 - 1 / 2 * 0.5) = 0.75 * rg" by simp_all
  show ?thesis
    unfolding anaglyph_color_def Let_def assms(1-3) g glsl_clamp_unit prod.case clamp3_def
    by (simp add: m r glsl_clamp_idem mult.commute)
qed

lemma calibration_off_fields:
  "uAntiRed calibration_off = 0" "uAntiGreen calibration_off = 0" "uAntiBlue calibration_off = 0"
  "uGreenBalance calibration_off = 0.5" "uEdgeFeather calibration_off = (0, 0)"
  by (simp_all add: calibration_off_def)

lemma edgeFade_no_feather: "edgeFade uv (0, 0) = 1"
  by (simp add: edgeFade_def featherAxis_def)

text \<open>
  C1, as stated, fails. With every leak-suppression value at 0 and the green balance at
  0.5 (no feathering), a white texture gives the output \<open>(1, 0.75, 1, 1)\<close>, whereas the
  Dubois composite of two white texels is white.
\<close>

theorem anaglyph_not_dubois_white:
  "ANAGLYPH_FRAGMENT_SHADER calibration_off (\<lambda>uv. (1, 1, 1, 1)) (0.5, 0.5) = (1, 0.75, 1, 1)
   \<and> dubois_color (1, 1, 1) (1, 1, 1) = (1, 1, 1)"
proof
  have c: "anaglyph_color calibration_off (1, 1, 1) (1, 1, 1) = (1, 0.75, 1)"
    using anaglyph_color_at_rest [OF calibration_off_fields(1-4), of 1 1 1 1 1 1]
    by (simp add: glsl_clamp_def)
  show "ANAGLYPH_FRAGMENT_SHADER calibration_off (\<lambda>uv. (1, 1, 1, 1)) (0.5, 0.5) = (1, 0.75, 1, 1)"
    unfolding ANAGLYPH_FRAGMENT_SHADER_def Let_def rgb_def calibration_off_fields(5) edgeFade_no_feather
    by (simp add: c)
  show "dubois_color (1, 1, 1) (1, 1, 1) = (1, 1, 1)"
    by (rule dubois_white)
qed

text \<open>
  C1, amended. The shader composites the two sampled texels as they are, with no
  decoding to linear light and no matrices: when every leak-suppression value is 0 and
  the green balance is 0.5, the colour is, for every pair of eye samples, the left
  texel's red plus a quarter of its green, three quarters of the right texel's green,
  and the right texel's blue, each clamped to [0, 1]; the output is that colour
  multiplied by the edge fade, with alpha 1.
\<close>

theorem anaglyph_zero_calibration_output:
  assumes "uAntiRed u = 0" "uAntiGreen u = 0" "uAntiBlue u = 0" "uGreenBalance u = 0.5"
  shows "anaglyph_color u (lr, lg, lb) (rr, rg, rb)
           = (glsl_clamp (lr + 0.25 * lg) 0 1, glsl_clamp (0.75 * rg) 0 1, glsl_clamp rb 0 1)
       \<and> ANAGLYPH_FRAGMENT_SHADER u tex uv
           = (case anaglyph_color u (rgb (tex (fst (anaglyph_eye_uvs u uv))))
                                    (rgb (tex (snd (anaglyph_eye_uvs u uv)))) of
                (r, g, b) \<Rightarrow> (r * edgeFade uv (uEdgeFeather u), g * edgeFade uv (uEdgeFeather u),
                              b * edgeFade uv (uEdgeFeather u), 1))"
proof
  show "anaglyph_color u (lr, lg, lb) (rr, rg, rb)
           = (glsl_clamp (lr + 0.25 * lg) 0 1, glsl_clamp (0.75 * rg) 0 1, glsl_clamp rb 0 1)"
    using assms by (rule anaglyph_color_at_rest)
  show "ANAGLYPH_FRAGMENT_SHADER u tex uv
           = (case anaglyph_color u (rgb (tex (fst (anaglyph_eye_uvs u uv))))
                                    (rgb (tex (snd (anaglyph_eye_uvs u uv)))) of
                (r, g, b) \<Rightarrow> (r * edgeFade uv (uEdgeFeather u), g * edgeFade uv (uEdgeFeather u),
                              b * edgeFade uv (uEdgeFeather u), 1))"
    by (simp only: ANAGLYPH_FRAGMENT_SHADER_def Let_def)
qed

theorem anaglyph_zero_calibration_output_witness:
  "uAntiRed calibration_off = 0 \<and> uAntiGreen calibration_off = 0 \<and> uAntiBlue calibration_off = 0
   \<and> uGreenBalance calibration_off = 0.5
   \<and> anaglyph_color calibration_off (0.2, 0.4, 0.6) (0.1, 0.5, 0.9) = (0.3, 0.375, 0.9)"
proof -
  note h = calibration_off_fields(1-4)
  from anaglyph_zero_calibration_output [OF h, of "0.2" "0.4" "0.6" "0.1" "0.5" "0.9"]
  have "anaglyph_color calibration_off (0.2, 0.4, 0.6) (0.1, 0.5, 0.9)
        = (glsl_clamp (0.2 + 0.25 * 0.4) 0 1, glsl_clamp (0.75 * 0.5) 0 1, glsl_clamp 0.9 0 1)"
    by blast
  then show ?thesis using h by (simp add: glsl_clamp_def)
qed

end
